theory Spec2Isabelle
  imports Complex_Main
begin

section \<open>Data model of \<open>rayopt/system.py\<close>\<close>

text \<open>
  Python objects are mutable and shared by reference, so the model keeps them in explicit
  stores: a store of elements (the Object, the surfaces and apertures of the chain, the
  Image) and a store of Systems, both indexed by addresses. A System holds the addresses
  of its object, of its elements (in chain order) and of its image.

  Floating-point numbers are kept abstract: \<open>'f\<close> is the type of scalars, and the
  arithmetic that the code performs on them is a parameter of the model (\<open>arith\<close>), so
  that nothing proved here depends on real-number laws that IEEE doubles do not obey.
\<close>

type_synonym addr = nat

datatype pyerror =
    NameError
  | AssertionError
  | IndexError
  | AttributeError
  | TypeError
  | ValueError
  | RuntimeError

text \<open>The classes of the \<open>elements\<close> module that an element of a chain can be an instance of.\<close>

datatype pyclass = Element | Object | Image | Aperture | Surface

record 'f material =
  mname :: string
  solid :: bool
  nd :: 'f
  vd :: 'f

text \<open>
  An element as far as \<open>system.py\<close> reads and writes it. \<open>material = None\<close> stands for an
  element that has no attribute \<open>material\<close> (\<open>hasattr(e, "material")\<close> is false).
\<close>

record 'f element =
  cls :: pyclass
  origin :: "'f \<times> 'f \<times> 'f"
  radius :: 'f
  material :: "'f material option"

type_synonym 'f heap = "addr \<Rightarrow> 'f element"

record 'f system =
  name :: string
  wavelengths :: "'f list"
  heights :: "('f \<times> 'f) list"
  temperature :: 'f
  scale :: 'f
  object :: addr
  elements :: "addr list"
  image' :: addr

type_synonym 'f systems = "addr \<Rightarrow> 'f system"

section \<open>\<open>System.__add__\<close>\<close>

text \<open>
  \<^verbatim>\<open>
  def __add__(self, other):
      self.elements += other.elements
      return self
  \<close>
  \<open>+=\<close> on a list extends it in place by the elements the right-hand side had when the
  statement started, also when both sides are the same list. The result is the address of
  \<open>self\<close>.
\<close>

definition add :: "'f systems \<Rightarrow> addr \<Rightarrow> addr \<Rightarrow> 'f systems \<times> addr" where
  "add S self other =
     (S(self := (S self)\<lparr>elements := elements (S self) @ elements (S other)\<rparr>), self)"

text \<open>The element list of the System that \<open>(S1 + S2) + S3\<close> evaluates to.\<close>

definition add_left :: "'f systems \<Rightarrow> addr \<Rightarrow> addr \<Rightarrow> addr \<Rightarrow> addr list" where
  "add_left S s1 s2 s3 =
     (let (S', r) = add S s1 s2; (S'', r') = add S' r s3 in elements (S'' r'))"

text \<open>The element list of the System that \<open>S1 + (S2 + S3)\<close> evaluates to.\<close>

definition add_right :: "'f systems \<Rightarrow> addr \<Rightarrow> addr \<Rightarrow> addr \<Rightarrow> addr list" where
  "add_right S s1 s2 s3 =
     (let (S', r) = add S s2 s3; (S'', r') = add S' s1 r in elements (S'' r'))"

text \<open>A System with the given element list and nothing else of interest.\<close>

definition plain_system :: "addr list \<Rightarrow> rat system" where
  "plain_system es =
     \<lparr>name = ''s'', wavelengths = [], heights = [], temperature = 21, scale = 1 / 1000,
      object = 0, elements = es, image' = 9\<rparr>"

text \<open>Two Systems at the addresses 0 and 1, with the chains \<open>[1]\<close> and \<open>[2]\<close>.\<close>

definition two_systems :: "rat systems" where
  "two_systems = (\<lambda>_. plain_system [])(0 := plain_system [1], 1 := plain_system [2])"

section \<open>\<open>System.revert\<close>\<close>

text \<open>
  \<^verbatim>\<open>
  def revert(self):
      m = self.object.material
      self.object.material = self.elements[-1].material
      for e in self.elements:
          if hasattr(e, "material"):
              m, e.material = e.material, m
      d = self.image.origin
      self.image.origin = self.elements[0].origin
      self.elements.reverse()
      for e in self.elements:
          e.revert()
          d, e.origin = e.origin, d
  \<close>
  \<open>shift_materials\<close> is the first loop: \<open>m\<close> is the material carried from the element
  before. \<open>shift_origins\<close> is the second loop: \<open>d\<close> is the origin carried from the
  element before; \<open>erev\<close> is the element's own \<open>revert\<close>, a method of the \<open>elements\<close>
  module, which acts on that element only.
\<close>

fun shift_materials :: "'f heap \<Rightarrow> addr list \<Rightarrow> 'f material \<Rightarrow> 'f heap" where
  "shift_materials h [] m = h"
| "shift_materials h (a # as) m =
     (case material (h a) of
        None \<Rightarrow> shift_materials h as m
      | Some m' \<Rightarrow> shift_materials (h(a := (h a)\<lparr>material := Some m\<rparr>)) as m')"

fun shift_origins ::
  "('f element \<Rightarrow> 'f element) \<Rightarrow> 'f heap \<Rightarrow> addr list \<Rightarrow> 'f \<times> 'f \<times> 'f \<Rightarrow> 'f heap" where
  "shift_origins erev h [] d = h"
| "shift_origins erev h (a # as) d =
     (let h1 = h(a := erev (h a));
          d' = origin (h1 a);
          h2 = h1(a := (h1 a)\<lparr>origin := d\<rparr>)
      in shift_origins erev h2 as d')"

text \<open>
  Reading \<open>self.object.material\<close> or \<open>self.elements[-1].material\<close> raises AttributeError
  when the attribute is missing, and \<open>self.elements[-1]\<close> raises IndexError on an empty
  list; both happen before anything is written. Once the first assignment is done,
  \<open>self.elements[0]\<close> exists.
\<close>

definition revert ::
  "('f element \<Rightarrow> 'f element) \<Rightarrow> 'f system \<Rightarrow> 'f heap \<Rightarrow> pyerror + 'f system \<times> 'f heap" where
  "revert erev s h =
     (case material (h (object s)) of
        None \<Rightarrow> Inl AttributeError
      | Some m \<Rightarrow>
          if elements s = [] then Inl IndexError
          else
            (case material (h (last (elements s))) of
               None \<Rightarrow> Inl AttributeError
             | Some ml \<Rightarrow>
                 let h1 = h(object s := (h (object s))\<lparr>material := Some ml\<rparr>);
                     h2 = shift_materials h1 (elements s) m;
                     d = origin (h2 (image' s));
                     h3 = h2(image' s := (h2 (image' s))\<lparr>origin := origin (h2 (hd (elements s)))\<rparr>);
                     s' = s\<lparr>elements := rev (elements s)\<rparr>;
                     h4 = shift_origins erev h3 (elements s') d
                 in Inr (s', h4)))"

text \<open>\<open>S.revert(); S.revert()\<close>: the second call runs only if the first one returns.\<close>

definition revert_twice ::
  "('f element \<Rightarrow> 'f element) \<Rightarrow> 'f system \<Rightarrow> 'f heap \<Rightarrow> pyerror + 'f system \<times> 'f heap" where
  "revert_twice erev s h =
     (case revert erev s h of
        Inl e \<Rightarrow> Inl e
      | Inr (s', h') \<Rightarrow> revert erev s' h')"

text \<open>
  The first loop of \<open>revert\<close> seen on the list of the elements' materials alone:
  \<open>shifted m xs\<close> is the list after the loop and \<open>carried m xs\<close> the value of \<open>m\<close>
  after it. Elements without a material are passed over.
\<close>

fun shifted :: "'m \<Rightarrow> 'm option list \<Rightarrow> 'm option list" where
  "shifted m [] = []"
| "shifted m (None # xs) = None # shifted m xs"
| "shifted m (Some m' # xs) = Some m # shifted m' xs"

fun carried :: "'m \<Rightarrow> 'm option list \<Rightarrow> 'm" where
  "carried m [] = m"
| "carried m (None # xs) = carried m xs"
| "carried m (Some m' # xs) = carried m' xs"

text \<open>
  A stop in front of a lens surface: the object at address 0 (in air), an aperture at
  address 1, which has no material, a surface at address 2 followed by glass, and the
  image at address 3.
\<close>

definition air :: "rat material" where
  "air = \<lparr>mname = ''air'', solid = False, nd = 1, vd = 0\<rparr>"

definition glass :: "rat material" where
  "glass = \<lparr>mname = ''glass'', solid = True, nd = 3 / 2, vd = 64\<rparr>"

definition elem :: "pyclass \<Rightarrow> rat \<Rightarrow> rat \<Rightarrow> rat material option \<Rightarrow> rat element" where
  "elem c z r m = \<lparr>cls = c, origin = (0, 0, z), radius = r, material = m\<rparr>"

definition stop_first_heap :: "rat heap" where
  "stop_first_heap =
     (\<lambda>_. elem Element 0 0 None)
       (0 := elem Object 0 1 (Some air),
        1 := elem Aperture 1 1 None,
        2 := elem Surface 2 1 (Some glass),
        3 := elem Image 5 1 None)"

definition stop_first :: "rat system" where
  "stop_first =
     \<lparr>name = ''stop first'', wavelengths = [], heights = [], temperature = 21,
      scale = 1 / 1000, object = 0, elements = [1, 2], image' = 3\<rparr>"

text \<open>The same lens with the stop behind the surface, and both elements bounded by a material.\<close>

definition stop_last_heap :: "rat heap" where
  "stop_last_heap =
     (\<lambda>_. elem Element 0 0 None)
       (0 := elem Object 0 1 (Some air),
        1 := elem Surface 1 1 (Some glass),
        2 := elem Aperture 2 1 (Some air),
        3 := elem Image 5 1 None)"

definition stop_last :: "rat system" where
  "stop_last =
     \<lparr>name = ''stop last'', wavelengths = [], heights = [], temperature = 21,
      scale = 1 / 1000, object = 0, elements = [1, 2], image' = 3\<rparr>"

section \<open>Rays, numpy values and the collaborators of \<open>System\<close>\<close>

text \<open>
  A batch of rays. \<open>end_positions\<close> holds one \<open>(x, y, z)\<close> per ray; \<open>positions\<close> and
  \<open>angles\<close> are arrays that \<open>system.py\<close> only passes on.
\<close>

record 'f rays =
  positions :: "'f list list"
  angles :: "'f list list"
  end_positions :: "('f \<times> 'f \<times> 'f) list"
  wavelength :: 'f

text \<open>A numpy value inside \<open>chief_and_marginal\<close>: a scalar or a one-dimensional array.\<close>

datatype 'f pyval = Num 'f | Arr "'f list"

text \<open>
  A method that mutates state \<open>'s\<close> and either raises or returns an \<open>'a\<close>. The state is
  returned in both cases: what was written before an exception stays written.
\<close>

type_synonym ('s, 'a) prog = "'s \<Rightarrow> (pyerror + 'a) \<times> 's"

definition ret :: "'a \<Rightarrow> ('s, 'a) prog" where
  "ret a s = (Inr a, s)"

definition lift :: "pyerror + 'a \<Rightarrow> ('s, 'a) prog" where
  "lift r s = (r, s)"

definition bnd :: "('s, 'a) prog \<Rightarrow> ('a \<Rightarrow> ('s, 'b) prog) \<Rightarrow> ('s, 'b) prog" where
  "bnd m f s = (case m s of (Inl e, s') \<Rightarrow> (Inl e, s') | (Inr a, s') \<Rightarrow> f a s')"

text \<open>
  The state of one call of \<open>chief_and_marginal\<close>: the \<open>Rays\<close> object it was given, which
  \<open>stop_for_pos\<close> overwrites, and \<open>probes\<close>, the arguments \<open>(x, y)\<close> of the evaluations of
  \<open>stop_for_pos\<close> made so far, oldest first. \<open>probes\<close> is bookkeeping of the model: it
  makes the number and the order of the evaluations a value that theorems can speak about.
\<close>

record 'f aim_state =
  rays :: "'f rays"
  probes :: "('f \<times> 'f) list"

text \<open>
  Everything \<open>system.py\<close> uses and does not define.
  \<^item> \<open>globals\<close>: the classes of the \<open>elements\<close> module that are bound, under their own
    names, in the global namespace of \<open>system.py\<close> when a method runs. A name that is not
    bound raises NameError where it is evaluated.
  \<^item> \<open>fneg\<close>, \<open>fadd\<close>, \<open>fsub\<close>, \<open>fmul\<close>, \<open>fdiv\<close>: floating-point arithmetic;
    \<open>flit m e\<close> is the value of the literal \<open>m\<close>e\<open>e\<close> (\<open>flit 1 (-3)\<close> is \<open>1e-3\<close>).
  \<^item> \<open>elem_propagate\<close>: \<open>b.propagate(rays)\<close> of an element, which returns a pair of rays.
  \<^item> \<open>rays_to_height\<close>: \<open>object.rays_to_height((x, y), height)\<close>, which returns positions
    and angles.
  \<^item> \<open>fsolve\<close> and \<open>newton\<close>: the root finders of \<open>scipy.optimize\<close>, which call the
    function they are given any number of times; \<open>fsolve\<close> also takes \<open>xtol\<close> and
    \<open>epsfcn\<close>. \<open>fsolve\<close> returns an array and \<open>newton\<close> a scalar.
\<close>

record 'f env =
  globals :: "pyclass list"
  fneg :: "'f \<Rightarrow> 'f"
  fadd :: "'f \<Rightarrow> 'f \<Rightarrow> 'f"
  fsub :: "'f \<Rightarrow> 'f \<Rightarrow> 'f"
  fmul :: "'f \<Rightarrow> 'f \<Rightarrow> 'f"
  fdiv :: "'f \<Rightarrow> 'f \<Rightarrow> 'f"
  flit :: "int \<Rightarrow> int \<Rightarrow> 'f"
  elem_propagate :: "'f element \<Rightarrow> 'f rays \<Rightarrow> 'f rays \<times> 'f rays"
  rays_to_height :: "'f element \<Rightarrow> 'f \<times> 'f \<Rightarrow> 'f \<times> 'f \<Rightarrow> 'f list list \<times> 'f list list"
  fsolve :: "('f list \<Rightarrow> ('f aim_state, 'f pyval) prog) \<Rightarrow> 'f list \<Rightarrow> 'f \<Rightarrow> 'f
               \<Rightarrow> ('f aim_state, 'f list) prog"
  newton :: "('f \<Rightarrow> ('f aim_state, 'f) prog) \<Rightarrow> 'f \<Rightarrow> ('f aim_state, 'f) prog"

text \<open>
  The import statements of \<open>system.py\<close> are
  \<^verbatim>\<open>
  from .elements import Element, Object, Image
  from .raytrace import Rays, ParaxialTrace
  \<close>
  so these are the classes of the \<open>elements\<close> module that the file itself binds.
\<close>

definition system_py_imports :: "pyclass list" where
  "system_py_imports = [Element, Object, Image]"

text \<open>\<open>isinstance(e, Aperture)\<close>: the name \<open>Aperture\<close> is looked up, then the class is tested.\<close>

definition isinstance_Aperture :: "pyclass list \<Rightarrow> 'f element \<Rightarrow> pyerror + bool" where
  "isinstance_Aperture G e = (if Aperture \<in> set G then Inr (cls e = Aperture) else Inl NameError)"

subsection \<open>numpy arithmetic, unpacking and indexing\<close>

text \<open>
  An operator between a scalar and an array applies to every entry; between two arrays it
  applies entry by entry, an array of length one is stretched, and other lengths that
  differ raise ValueError.
\<close>

fun np_binop :: "('f \<Rightarrow> 'f \<Rightarrow> 'f) \<Rightarrow> 'f pyval \<Rightarrow> 'f pyval \<Rightarrow> pyerror + 'f pyval" where
  "np_binop f (Num a) (Num b) = Inr (Num (f a b))"
| "np_binop f (Num a) (Arr bs) = Inr (Arr (map (f a) bs))"
| "np_binop f (Arr as) (Num b) = Inr (Arr (map (\<lambda>a. f a b) as))"
| "np_binop f (Arr as) (Arr bs) =
     (if length as = length bs then Inr (Arr (map2 f as bs))
      else if length as = 1 then Inr (Arr (map (f (hd as)) bs))
      else if length bs = 1 then Inr (Arr (map (\<lambda>a. f a (hd bs)) as))
      else Inl ValueError)"

text \<open>\<open>f(*v)\<close> for a function of two arguments: any other number of arguments is a TypeError.\<close>

fun star2 :: "'f pyval \<Rightarrow> pyerror + 'f \<times> 'f" where
  "star2 (Arr [a, b]) = Inr (a, b)"
| "star2 _ = Inl TypeError"

text \<open>
  \<open>p, q = v\<close>: iterating an array of two entries gives two scalars; another length is a
  ValueError and a scalar cannot be iterated.
\<close>

fun unpack2 :: "'f pyval \<Rightarrow> pyerror + 'f pyval \<times> 'f pyval" where
  "unpack2 (Arr [a, b]) = Inr (Num a, Num b)"
| "unpack2 (Arr _) = Inl ValueError"
| "unpack2 (Num _) = Inl TypeError"

text \<open>\<open>v[i]\<close> for \<open>i\<close> = 0 or 1.\<close>

fun index :: "'f pyval \<Rightarrow> nat \<Rightarrow> pyerror + 'f" where
  "index (Arr xs) i = (if i < length xs then Inr (xs ! i) else Inl IndexError)"
| "index (Num _) i = Inl IndexError"

section \<open>\<open>System.propagate\<close>, \<open>propagate_through\<close> and \<open>height_at_aperture\<close>\<close>

text \<open>
  \<^verbatim>\<open>
  def propagate(self, rays):
      for a, b in zip([self.object] + self.elements,
                      self.elements + [self.image]):
          a_rays, rays = b.propagate(rays)
          yield a, a_rays
      yield b, rays
  \<close>
  The generator is modelled by the list of the pairs it yields. \<open>propagate_loop\<close> is the
  \<open>for\<close> loop and also returns the rays it ends with; the last pair has the \<open>b\<close> that the
  loop ended with.
\<close>

fun propagate_loop ::
  "('f element \<Rightarrow> 'f rays \<Rightarrow> 'f rays \<times> 'f rays) \<Rightarrow> 'f heap \<Rightarrow> (addr \<times> addr) list \<Rightarrow> 'f rays
     \<Rightarrow> (addr \<times> 'f rays) list \<times> 'f rays" where
  "propagate_loop ep h [] r = ([], r)"
| "propagate_loop ep h ((a, b) # ps) r =
     (let (a_rays, r') = ep (h b) r;
          (ys, r'') = propagate_loop ep h ps r'
      in ((a, a_rays) # ys, r''))"

definition propagate ::
  "('f element \<Rightarrow> 'f rays \<Rightarrow> 'f rays \<times> 'f rays) \<Rightarrow> 'f system \<Rightarrow> 'f heap \<Rightarrow> 'f rays
     \<Rightarrow> (addr \<times> 'f rays) list" where
  "propagate ep s h r =
     (let ps = zip (object s # elements s) (elements s @ [image' s]);
          (ys, r') = propagate_loop ep h ps r
      in ys @ [(snd (last ps), r')])"

text \<open>
  \<^verbatim>\<open>
  def propagate_through(self, rays):
      for element, rays in self.propagate(rays):
          pass
      return rays
  \<close>
\<close>

definition propagate_through ::
  "('f element \<Rightarrow> 'f rays \<Rightarrow> 'f rays \<times> 'f rays) \<Rightarrow> 'f system \<Rightarrow> 'f heap \<Rightarrow> 'f rays \<Rightarrow> 'f rays" where
  "propagate_through ep s h r = foldl (\<lambda>acc (element, r'). r') r (propagate ep s h r)"

text \<open>
  \<^verbatim>\<open>
  def height_at_aperture(self, rays):
      for element, in_rays in self.propagate(rays):
          if isinstance(element, Aperture):
              return in_rays.end_positions[...,(0,1)]/element.radius
  \<close>
  A function that ends without \<open>return\<close> gives \<open>None\<close>.
\<close>

fun height_loop ::
  "'f env \<Rightarrow> 'f heap \<Rightarrow> (addr \<times> 'f rays) list \<Rightarrow> pyerror + ('f \<times> 'f) list option" where
  "height_loop W h [] = Inr None"
| "height_loop W h ((element, in_rays) # ps) =
     (case isinstance_Aperture (globals W) (h element) of
        Inl e \<Rightarrow> Inl e
      | Inr True \<Rightarrow>
          Inr (Some (map (\<lambda>(x, y, z). (fdiv W x (radius (h element)), fdiv W y (radius (h element))))
                      (end_positions in_rays)))
      | Inr False \<Rightarrow> height_loop W h ps)"

definition height_at_aperture ::
  "'f env \<Rightarrow> 'f system \<Rightarrow> 'f heap \<Rightarrow> 'f rays \<Rightarrow> pyerror + ('f \<times> 'f) list option" where
  "height_at_aperture W s h r = height_loop W h (propagate (elem_propagate W) s h r)"

section \<open>\<open>System.chief_and_marginal\<close>\<close>

text \<open>
  \<^verbatim>\<open>
  assert sum(1 for e in self.elements
          if isinstance(e, Aperture)) == 1
  \<close>
\<close>

fun count_apertures :: "pyclass list \<Rightarrow> 'f heap \<Rightarrow> addr list \<Rightarrow> pyerror + nat" where
  "count_apertures G h [] = Inr 0"
| "count_apertures G h (e # es) =
     (case isinstance_Aperture G (h e) of
        Inl err \<Rightarrow> Inl err
      | Inr b \<Rightarrow>
          (case count_apertures G h es of
             Inl err \<Rightarrow> Inl err
           | Inr n \<Rightarrow> Inr ((if b then 1 else 0) + n)))"

definition assert_one_aperture :: "'f env \<Rightarrow> 'f system \<Rightarrow> 'f heap \<Rightarrow> ('s, unit) prog" where
  "assert_one_aperture W s h =
     bnd (lift (count_apertures (globals W) h (elements s)))
       (\<lambda>n. if n = 1 then ret () else lift (Inl AssertionError))"

text \<open>
  \<^verbatim>\<open>
  def stop_for_pos(x,y):
      rays.positions, rays.angles = self.object.rays_to_height(
              (x,y), height)
      return self.height_at_aperture(rays)[0]
  \<close>
  \<open>None[0]\<close> is a TypeError and row 0 of an array without rows an IndexError. A row of the
  heights is an array of two entries.
\<close>

definition stop_for_pos ::
  "'f env \<Rightarrow> 'f system \<Rightarrow> 'f heap \<Rightarrow> 'f \<times> 'f \<Rightarrow> 'f \<Rightarrow> 'f \<Rightarrow> ('f aim_state, 'f pyval) prog" where
  "stop_for_pos W s h height x y st =
     (let (p, a) = rays_to_height W (h (object s)) (x, y) height;
          r = (rays st)\<lparr>positions := p, angles := a\<rparr>;
          st' = st\<lparr>rays := r, probes := probes st @ [(x, y)]\<rparr>
      in case height_at_aperture W s h r of
           Inl e \<Rightarrow> (Inl e, st')
         | Inr None \<Rightarrow> (Inl TypeError, st')
         | Inr (Some []) \<Rightarrow> (Inl IndexError, st')
         | Inr (Some ((u, v) # rows)) \<Rightarrow> (Inr (Arr [u, v]), st'))"

text \<open>
  \<^verbatim>\<open>
  d = 1e-3 # arbitrary to get newton started, TODO: better scale

  if paraxial_chief:
      d0 = stop_for_pos(0,0)
      chief = -d*d0/(stop_for_pos(d,d)-d0)
  else:
      chief = fsolve(lambda p: stop_for_pos(*p),
              (0,0), xtol=1e-2, epsfcn=d)
  \<close>
  The operands of \<open>/\<close> are evaluated from left to right: \<open>-d*d0\<close> before the second call.
\<close>

definition chief_phase ::
  "'f env \<Rightarrow> 'f system \<Rightarrow> 'f heap \<Rightarrow> 'f \<times> 'f \<Rightarrow> bool \<Rightarrow> ('f aim_state, 'f pyval) prog" where
  "chief_phase W s h height paraxial_chief =
     (let d = flit W 1 (- 3) in
      if paraxial_chief then
        bnd (stop_for_pos W s h height (flit W 0 0) (flit W 0 0)) (\<lambda>d0.
        bnd (lift (np_binop (fmul W) (Num (fneg W d)) d0)) (\<lambda>num.
        bnd (stop_for_pos W s h height d d) (\<lambda>fd.
        bnd (lift (np_binop (fsub W) fd d0)) (\<lambda>den.
        lift (np_binop (fdiv W) num den)))))
      else
        bnd (fsolve W (\<lambda>p. bnd (lift (star2 (Arr p))) (\<lambda>(x, y). stop_for_pos W s h height x y))
               [flit W 0 0, flit W 0 0] (flit W 1 (- 2)) d)
          (\<lambda>sol. ret (Arr sol)))"

text \<open>
  \<^verbatim>\<open>
  if paraxial_marginal:
      dmarg = d/(stop_for_pos(*(chief+d))-stop_for_pos(*chief))
      marg_px, marg_py = chief+dmarg
      marg_nx, marg_ny = chief-dmarg
  else:
      marg_px = newton(lambda x: stop_for_pos(x, chief[1])[0]-1,
              chief[0]+d)
      marg_nx = newton(lambda x: stop_for_pos(x, chief[1])[0]+1,
              chief[0]-d)
      marg_py = newton(lambda y: stop_for_pos(chief[0], y)[1]-1,
              chief[1]+d)
      marg_ny = newton(lambda y: stop_for_pos(chief[0], y)[1]+1,
              chief[1]-d)
  \<close>
  The starting point of \<open>newton\<close> is evaluated before the call, the body of the lambda at
  every call that \<open>newton\<close> makes.
\<close>

definition marginal_paraxial ::
  "'f env \<Rightarrow> 'f system \<Rightarrow> 'f heap \<Rightarrow> 'f \<times> 'f \<Rightarrow> 'f pyval
     \<Rightarrow> ('f aim_state, 'f pyval \<times> 'f pyval \<times> 'f pyval \<times> 'f pyval) prog" where
  "marginal_paraxial W s h height chief =
     (let d = flit W 1 (- 3) in
      bnd (lift (np_binop (fadd W) chief (Num d))) (\<lambda>cd.
      bnd (lift (star2 cd)) (\<lambda>(x1, y1).
      bnd (stop_for_pos W s h height x1 y1) (\<lambda>f1.
      bnd (lift (star2 chief)) (\<lambda>(x0, y0).
      bnd (stop_for_pos W s h height x0 y0) (\<lambda>f0.
      bnd (lift (np_binop (fsub W) f1 f0)) (\<lambda>df.
      bnd (lift (np_binop (fdiv W) (Num d) df)) (\<lambda>dmarg.
      bnd (lift (np_binop (fadd W) chief dmarg)) (\<lambda>plus.
      bnd (lift (unpack2 plus)) (\<lambda>(marg_px, marg_py).
      bnd (lift (np_binop (fsub W) chief dmarg)) (\<lambda>minus.
      bnd (lift (unpack2 minus)) (\<lambda>(marg_nx, marg_ny).
      ret (marg_px, marg_nx, marg_py, marg_ny)))))))))))))"

text \<open>
  The functions handed to \<open>newton\<close>: \<open>lambda x: stop_for_pos(x, chief[1])[0] - 1\<close> is
  \<open>edge_x\<close> with the offset \<open>\<lambda>v. v - 1\<close>, and \<open>lambda y: stop_for_pos(chief[0], y)[1] + 1\<close>
  is \<open>edge_y\<close> with the offset \<open>\<lambda>v. v + 1\<close>.
\<close>

definition edge_x ::
  "'f env \<Rightarrow> 'f system \<Rightarrow> 'f heap \<Rightarrow> 'f \<times> 'f \<Rightarrow> 'f pyval \<Rightarrow> ('f \<Rightarrow> 'f) \<Rightarrow> 'f
     \<Rightarrow> ('f aim_state, 'f) prog" where
  "edge_x W s h height chief offset x =
     bnd (lift (index chief 1)) (\<lambda>c1.
     bnd (stop_for_pos W s h height x c1) (\<lambda>v.
     bnd (lift (index v 0)) (\<lambda>v0. ret (offset v0))))"

definition edge_y ::
  "'f env \<Rightarrow> 'f system \<Rightarrow> 'f heap \<Rightarrow> 'f \<times> 'f \<Rightarrow> 'f pyval \<Rightarrow> ('f \<Rightarrow> 'f) \<Rightarrow> 'f
     \<Rightarrow> ('f aim_state, 'f) prog" where
  "edge_y W s h height chief offset y =
     bnd (lift (index chief 0)) (\<lambda>c0.
     bnd (stop_for_pos W s h height c0 y) (\<lambda>v.
     bnd (lift (index v 1)) (\<lambda>v1. ret (offset v1))))"

definition marginal_exact ::
  "'f env \<Rightarrow> 'f system \<Rightarrow> 'f heap \<Rightarrow> 'f \<times> 'f \<Rightarrow> 'f pyval
     \<Rightarrow> ('f aim_state, 'f pyval \<times> 'f pyval \<times> 'f pyval \<times> 'f pyval) prog" where
  "marginal_exact W s h height chief =
     (let d = flit W 1 (- 3); one = flit W 1 0 in
      bnd (lift (index chief 0)) (\<lambda>c0.
      bnd (newton W (edge_x W s h height chief (\<lambda>v. fsub W v one)) (fadd W c0 d)) (\<lambda>marg_px.
      bnd (lift (index chief 0)) (\<lambda>c0.
      bnd (newton W (edge_x W s h height chief (\<lambda>v. fadd W v one)) (fsub W c0 d)) (\<lambda>marg_nx.
      bnd (lift (index chief 1)) (\<lambda>c1.
      bnd (newton W (edge_y W s h height chief (\<lambda>v. fsub W v one)) (fadd W c1 d)) (\<lambda>marg_py.
      bnd (lift (index chief 1)) (\<lambda>c1.
      bnd (newton W (edge_y W s h height chief (\<lambda>v. fadd W v one)) (fsub W c1 d)) (\<lambda>marg_ny.
      ret (Num marg_px, Num marg_nx, Num marg_py, Num marg_ny))))))))))"

text \<open>
  \<^verbatim>\<open>
  def chief_and_marginal(self, height, rays,
          paraxial_chief=True,
          paraxial_marginal=True):
      ...
      return chief, (marg_px, marg_nx, marg_py, marg_ny)
  \<close>
\<close>

definition chief_and_marginal ::
  "'f env \<Rightarrow> 'f system \<Rightarrow> 'f heap \<Rightarrow> 'f \<times> 'f \<Rightarrow> bool \<Rightarrow> bool
     \<Rightarrow> ('f aim_state, 'f pyval \<times> 'f pyval \<times> 'f pyval \<times> 'f pyval \<times> 'f pyval) prog" where
  "chief_and_marginal W s h height paraxial_chief paraxial_marginal =
     bnd (assert_one_aperture W s h) (\<lambda>_.
     bnd (chief_phase W s h height paraxial_chief) (\<lambda>chief.
     bnd (if paraxial_marginal then marginal_paraxial W s h height chief
          else marginal_exact W s h height chief) (\<lambda>marginals.
     ret (chief, marginals))))"

section \<open>The objective function of \<open>System.optimize\<close>\<close>

text \<open>
  The collaborators of the optimisation: a Parameter reads and writes one number of the
  System (which it mutates), a Demerit maps the System, the paraxial trace and the traced
  rays to an array of any shape and has a weight.
\<close>

record 'f parameter =
  get_value :: "'f system \<times> 'f heap \<Rightarrow> 'f"
  set_value :: "'f system \<times> 'f heap \<Rightarrow> 'f \<Rightarrow> 'f system \<times> 'f heap"
  bounds :: "'f \<times> 'f"
  pscale :: 'f

datatype 'f ndarray = Scalar 'f | Nested "'f ndarray list"

record ('f, 'p) demerit =
  call :: "'f system \<times> 'f heap \<Rightarrow> 'p \<Rightarrow> 'f rays list \<Rightarrow> 'f ndarray"
  weight :: 'f

text \<open>
  The shape that \<open>np.array\<close> gives a nesting: none for a scalar, and for a sequence its
  length followed by the shape that all its members share. A ragged nesting, whose members
  differ in shape, has no shape (\<open>None\<close>).
\<close>

fun shape_of :: "'f ndarray \<Rightarrow> nat list option" where
  "shape_of (Scalar x) = Some []"
| "shape_of (Nested vs) =
     (case map shape_of vs of
        [] \<Rightarrow> Some [0]
      | None # shs \<Rightarrow> None
      | Some d # shs \<Rightarrow>
          if list_all (\<lambda>t. t = Some d) shs then Some (length vs # d) else None)"

text \<open>The entries of an array in row-major order.\<close>

fun reshape_flat :: "'f ndarray \<Rightarrow> 'f list" where
  "reshape_flat (Scalar x) = [x]"
| "reshape_flat (Nested vs) = concat (map reshape_flat vs)"

text \<open>
  \<open>np.array(v).reshape((-1,))\<close>: the flat array of the entries of \<open>v\<close>. For a ragged \<open>v\<close>
  there is no array of numbers: \<open>np.array\<close> raises ValueError (older versions of numpy
  build an array of Python objects instead, which is not a vector of numbers either).
\<close>

definition np_array_flat :: "'f ndarray \<Rightarrow> pyerror + 'f list" where
  "np_array_flat v = (case shape_of v of None \<Rightarrow> Inl ValueError | Some sh \<Rightarrow> Inr (reshape_flat v))"

text \<open>\<open>np.concatenate\<close> of one-dimensional arrays; it raises ValueError when there is none.\<close>

definition np_concatenate :: "'f list list \<Rightarrow> pyerror + 'f list" where
  "np_concatenate vs = (if vs = [] then Inl ValueError else Inr (concat vs))"

text \<open>
  \<^verbatim>\<open>
  for i,p in enumerate(parameters):
      p.set_value(self, x[i])
  \<close>
  \<open>x[i]\<close> raises IndexError when \<open>x\<close> has no entry \<open>i\<close>.
\<close>

fun set_values ::
  "'f parameter list \<Rightarrow> nat \<Rightarrow> 'f list \<Rightarrow> 'f system \<times> 'f heap \<Rightarrow> pyerror + 'f system \<times> 'f heap" where
  "set_values [] i x st = Inr st"
| "set_values (p # ps) i x st =
     (if i < length x then set_values ps (Suc i) x (set_value p st (x ! i)) else Inl IndexError)"

text \<open>
  \<^verbatim>\<open>
  def objective_function(x):
      for i,p in enumerate(parameters):
          p.set_value(self, x[i])
      p = self.paraxial_trace()
      r = [self.propagate_through(ir) for ir in rays]
      d = [np.array(de(self, p, r)).reshape((-1,))*de.weight for de in demerits]
      return np.concatenate(d)
  \<close>
  \<open>ptrace\<close> is the constructor \<open>ParaxialTrace(self)\<close> of the \<open>raytrace\<close> module. The result
  is the objective vector together with the System as the evaluation leaves it.
  \<open>weighted\<close> is the list comprehension for \<open>d\<close>: the demerits are evaluated in order, and
  the first one whose output is no array ends the evaluation.
\<close>

fun weighted ::
  "'f env \<Rightarrow> 'f system \<times> 'f heap \<Rightarrow> 'p \<Rightarrow> 'f rays list \<Rightarrow> ('f, 'p) demerit list
     \<Rightarrow> pyerror + 'f list list" where
  "weighted W st p r [] = Inr []"
| "weighted W st p r (de # des) =
     (case np_array_flat (call de st p r) of
        Inl e \<Rightarrow> Inl e
      | Inr v \<Rightarrow>
          (case weighted W st p r des of
             Inl e \<Rightarrow> Inl e
           | Inr vs \<Rightarrow> Inr (map (\<lambda>x. fmul W x (weight de)) v # vs)))"

definition objective_function ::
  "'f env \<Rightarrow> ('f system \<times> 'f heap \<Rightarrow> 'p) \<Rightarrow> 'f rays list \<Rightarrow> 'f parameter list
     \<Rightarrow> ('f, 'p) demerit list \<Rightarrow> 'f list \<Rightarrow> 'f system \<times> 'f heap
     \<Rightarrow> pyerror + 'f list \<times> ('f system \<times> 'f heap)" where
  "objective_function W ptrace rays_in parameters demerits x st =
     (case set_values parameters 0 x st of
        Inl e \<Rightarrow> Inl e
      | Inr st' \<Rightarrow>
          let p = ptrace st';
              r = map (\<lambda>ir. propagate_through (elem_propagate W) (fst st') (snd st') ir) rays_in
          in (case weighted W st' p r demerits of
                Inl e \<Rightarrow> Inl e
              | Inr d \<Rightarrow>
                  (case np_concatenate d of
                     Inl e \<Rightarrow> Inl e
                   | Inr v \<Rightarrow> Inr (v, st'))))"

section \<open>A concrete lens for evaluation\<close>

text \<open>
  Arithmetic on rationals, every class bound, and collaborators simple enough to
  compute with: the object launches one ray with angles \<open>(x, y)\<close>, and propagating to an
  element records the end position \<open>(x + 1, y + 2, 0)\<close> of each ray. \<open>fsolve\<close> and \<open>newton\<close>
  return their starting point after one call of the function.
\<close>

definition rat_lit :: "int \<Rightarrow> int \<Rightarrow> rat" where
  "rat_lit m e = (if 0 \<le> e then of_int m * 10 ^ nat e else of_int m / 10 ^ nat (- e))"

definition demo_propagate :: "rat element \<Rightarrow> rat rays \<Rightarrow> rat rays \<times> rat rays" where
  "demo_propagate e r =
     (r\<lparr>end_positions := map (\<lambda>a. case a of [u, v] \<Rightarrow> (u + 1, v + 2, 0) | _ \<Rightarrow> (0, 0, 0)) (angles r)\<rparr>, r)"

definition demo_env :: "pyclass list \<Rightarrow> rat env" where
  "demo_env G =
     \<lparr>globals = G, fneg = uminus, fadd = (+), fsub = (-), fmul = (*), fdiv = (/),
      flit = rat_lit,
      elem_propagate = demo_propagate,
      rays_to_height = (\<lambda>obj (x, y) height. ([[0, 0, 0]], [[x, y]])),
      fsolve = (\<lambda>f x0 xtol epsfcn. bnd (f x0) (\<lambda>_. ret x0)),
      newton = (\<lambda>f x0. bnd (f x0) (\<lambda>_. ret x0))\<rparr>"

definition all_classes :: "pyclass list" where
  "all_classes = [Element, Object, Image, Aperture, Surface]"

definition no_rays :: "rat rays" where
  "no_rays = \<lparr>positions = [], angles = [], end_positions = [], wavelength = 1\<rparr>"

definition start :: "rat aim_state" where
  "start = \<lparr>rays = no_rays, probes = []\<rparr>"

text \<open>A chain of two surfaces, without a stop, on the heap of \<open>stop_last\<close>.\<close>

definition no_stop_heap :: "rat heap" where
  "no_stop_heap = stop_last_heap(2 := elem Surface 2 1 (Some air))"

text \<open>One ray, launched with the angles \<open>(3, 4)\<close>.\<close>

definition one_ray :: "rat rays" where
  "one_ray = \<lparr>positions = [[0, 0, 0]], angles = [[3, 4]], end_positions = [], wavelength = 1\<rparr>"

text \<open>
  A Parameter that is the radius of the element at address 1, and a Demerit that returns
  that radius and the paraxial trace (here a number) as an array of shape (2, 1), with
  weight 2. \<open>ragged_demerit\<close> returns a nesting that is no array.
\<close>

definition demo_parameter :: "rat parameter" where
  "demo_parameter =
     \<lparr>get_value = (\<lambda>st. radius (snd st 1)),
      set_value = (\<lambda>st v. (fst st, (snd st)(1 := (snd st 1)\<lparr>radius := v\<rparr>))),
      bounds = (0, 10), pscale = 1\<rparr>"

definition demo_demerit :: "(rat, rat) demerit" where
  "demo_demerit =
     \<lparr>call = (\<lambda>st p rs. Nested [Nested [Scalar (radius (snd st 1))], Nested [Scalar p]]),
      weight = 2\<rparr>"

definition ragged_demerit :: "(rat, rat) demerit" where
  "ragged_demerit =
     \<lparr>call = (\<lambda>st p rs. Nested [Scalar (radius (snd st 1)), Nested [Scalar p]]), weight = 2\<rparr>"

section \<open>Concatenation of Systems\<close>

text \<open>
  C9 as stated: for all Systems S1, S2, S3 the element list of \<open>(S1 + S2) + S3\<close> equals
  that of \<open>S1 + (S2 + S3)\<close>. It fails when S3 is the same object as S1: the left side
  appends the grown list of S1 to itself, the right side appends S1's original list to S2
  before S2 is appended to S1.
\<close>

theorem add_assoc_counterexample:
  "add_left two_systems 0 1 0 = [1, 2, 1, 2] \<and> add_right two_systems 0 1 0 = [1, 2, 1]"
  by (simp add: add_left_def add_right_def add_def two_systems_def plain_system_def)

text \<open>
  C9 amended: when S1 is a different object from S2 and from S3, both groupings give S1
  the list of S1's elements, then S2's, then S3's, in this order.
\<close>

theorem add_assoc_distinct:
  assumes "s1 \<noteq> s2" and "s1 \<noteq> s3"
  shows "add_left S s1 s2 s3 = add_right S s1 s2 s3
       \<and> add_left S s1 s2 s3 = elements (S s1) @ elements (S s2) @ elements (S s3)"
  using assms by (auto simp add: add_left_def add_right_def add_def)

theorem add_assoc_distinct_witness:
  "add_left two_systems 0 1 1 = add_right two_systems 0 1 1
   \<and> add_left two_systems 0 1 1 = [1, 2, 2]"
proof -
  have e: "elements (two_systems 0) = [1]" "elements (two_systems 1) = [2]"
    by (simp_all add: two_systems_def plain_system_def)
  have "(0::addr) \<noteq> 1" by simp
  from add_assoc_distinct [OF this this, of two_systems] e show ?thesis by auto
qed

text \<open>
  C10 as stated: for all Systems S1 and S2, \<open>S1 + S2\<close> appends S2's elements to S1, returns
  S1 itself and leaves S2's element list unchanged. For \<open>S + S\<close> the list of the right
  operand is the list that grows.
\<close>

theorem add_alias_counterexample:
  "elements (fst (add two_systems 0 0) 0) = [1, 1] \<and> elements (two_systems 0) = [1]"
  by (simp add: add_def two_systems_def plain_system_def)

text \<open>
  C10 amended: for Systems S1 and S2 that are different objects, \<open>S1 + S2\<close> returns S1
  itself; S1's element list is its old list followed by S2's; every other field of S1
  (object, image, wavelengths and the rest) is unchanged; S2 and every other System are
  unchanged altogether. No element is touched: \<open>add\<close> does not have the element store.
\<close>

theorem add_frame:
  assumes "s1 \<noteq> s2"
  shows "snd (add S s1 s2) = s1
       \<and> elements (fst (add S s1 s2) s1) = elements (S s1) @ elements (S s2)
       \<and> (fst (add S s1 s2) s1)\<lparr>elements := elements (S s1)\<rparr> = S s1
       \<and> fst (add S s1 s2) s2 = S s2
       \<and> (\<forall>a. a \<noteq> s1 \<longrightarrow> fst (add S s1 s2) a = S a)"
  using assms by (simp add: add_def)

theorem add_frame_witness:
  "snd (add two_systems 0 1) = 0
   \<and> elements (fst (add two_systems 0 1) 0) = [1, 2]
   \<and> fst (add two_systems 0 1) 1 = two_systems 1"
proof -
  have e: "elements (two_systems 0) = [1]" "elements (two_systems 1) = [2]"
    by (simp_all add: two_systems_def plain_system_def)
  show ?thesis using add_frame [of 0 1 two_systems] e by simp
qed

section \<open>Propagation\<close>

lemma propagate_loop_fst:
  "propagate_loop ep h ps r = (ys, r') \<Longrightarrow> map fst ys = map fst ps"
proof (induction ps arbitrary: r ys r')
  case Nil
  then show ?case by simp
next
  case (Cons p ps)
  obtain a b where p: "p = (a, b)" by (cases p)
  obtain a_rays r1 where e: "ep (h b) r = (a_rays, r1)" by (cases "ep (h b) r")
  obtain zs r2 where l: "propagate_loop ep h ps r1 = (zs, r2)"
    by (cases "propagate_loop ep h ps r1")
  from Cons.prems p e l have "ys = (a, a_rays) # zs" by simp
  moreover from Cons.IH [OF l] have "map fst zs = map fst ps" .
  ultimately show ?case using p by simp
qed

lemma map_fst_zip_chain: "map fst (zip (x # es) (es @ [y])) = x # es"
  by (simp add: map_fst_zip_take)

lemma last_zip_chain: "snd (last (zip (x # es) (es @ [y]))) = y"
proof -
  have "length (x # es) = length (es @ [y])" by simp
  then have "map snd (zip (x # es) (es @ [y])) = es @ [y]" by (rule map_snd_zip)
  moreover have "zip (x # es) (es @ [y]) \<noteq> []" by (cases es) auto
  ultimately show ?thesis by (metis last_map last_snoc)
qed

lemma foldl_keep_last:
  "foldl (\<lambda>acc (e, r'). r') r xs = (if xs = [] then r else snd (last xs))"
  by (induction xs arbitrary: r) (auto split: prod.splits)

lemma propagate_shape:
  obtains ys r' where "propagate ep s h r = ys @ [(image' s, r')]"
    and "map fst ys = object s # elements s"
proof -
  let ?ps = "zip (object s # elements s) (elements s @ [image' s])"
  obtain ys r' where L: "propagate_loop ep h ?ps r = (ys, r')"
    by (cases "propagate_loop ep h ?ps r")
  have P: "propagate ep s h r = ys @ [(image' s, r')]"
    by (simp add: propagate_def Let_def L last_zip_chain del: zip_Cons_Cons)
  have "map fst ys = map fst ?ps" using L by (rule propagate_loop_fst)
  then have "map fst ys = object s # elements s" by (simp only: map_fst_zip_chain)
  with P show ?thesis by (rule that)
qed

lemma propagate_fst:
  "map fst (propagate ep s h r) = object s # elements s @ [image' s]"
  by (rule propagate_shape [of ep s h r]) simp

lemma propagate_not_Nil: "propagate ep s h r \<noteq> []"
  by (rule propagate_shape [of ep s h r]) simp

text \<open>
  The rays of the loop: the rays that reach element number \<open>i\<close> of \<open>bs\<close> are the given
  rays sent through the elements before it, each step keeping the second component of
  \<open>b.propagate(rays)\<close>; the rays yielded with \<open>as ! i\<close> are the first component of the
  step through \<open>bs ! i\<close>.
\<close>

lemma upt_0_Suc_map: "map f [0 ..< Suc n] = f 0 # map (\<lambda>i. f (Suc i)) [0 ..< n]"
proof -
  have "[0 ..< Suc n] = 0 # map Suc [0 ..< n]"
    by (simp only: upt_conv_Cons [OF zero_less_Suc] map_Suc_upt)
  then show ?thesis by (simp add: comp_def)
qed

lemma propagate_loop_rays:
  assumes "length as = length bs"
  shows "propagate_loop ep h (zip as bs) r =
           (map (\<lambda>i. (as ! i,
                       fst (ep (h (bs ! i)) (foldl (\<lambda>r b. snd (ep (h b) r)) r (take i bs)))))
              [0 ..< length bs],
            foldl (\<lambda>r b. snd (ep (h b) r)) r bs)"
  using assms
proof (induction bs arbitrary: as r)
  case Nil
  then show ?case by simp
next
  case (Cons b bs)
  then obtain a as' where as: "as = a # as'" and len: "length as' = length bs"
    by (cases as) auto
  obtain a_rays r' where e: "ep (h b) r = (a_rays, r')" by (cases "ep (h b) r")
  from Cons.IH [OF len, of r'] e as show ?case
    by (simp add: upt_0_Suc_map del: upt_Suc)
qed

text \<open>
  C5: for a chain of \<open>n\<close> elements \<open>propagate\<close> yields exactly \<open>n + 2\<close> pairs. Pair
  number \<open>i\<close>, for \<open>i\<close> up to \<open>n\<close>, is element \<open>i\<close> of object, elements (in chain order)
  with the rays that the next element's \<open>propagate\<close> returns first, for the given rays
  sent through all elements up to it; the last pair is the image with the given rays sent
  through all elements and the image. So the elements of the pairs are the object, the
  elements in chain order, then the image, and \<open>propagate_through\<close> returns the rays of
  the last pair, which are the given rays sent through every element and the image in
  chain order.
\<close>

theorem propagate_chain_order:
  "propagate ep s h r =
     map (\<lambda>i. ((object s # elements s) ! i,
                fst (ep (h ((elements s @ [image' s]) ! i))
                       (foldl (\<lambda>r b. snd (ep (h b) r)) r (take i (elements s @ [image' s]))))))
         [0 ..< length (elements s) + 1]
     @ [(image' s, foldl (\<lambda>r b. snd (ep (h b) r)) r (elements s @ [image' s]))]
   \<and> map fst (propagate ep s h r) = object s # elements s @ [image' s]
   \<and> length (propagate ep s h r) = length (elements s) + 2
   \<and> propagate_through ep s h r = snd (last (propagate ep s h r))
   \<and> propagate_through ep s h r
       = foldl (\<lambda>r b. snd (ep (h b) r)) r (elements s @ [image' s])"
proof -
  let ?as = "object s # elements s" and ?bs = "elements s @ [image' s]"
  have "length ?as = length ?bs" by simp
  then have L: "propagate_loop ep h (zip ?as ?bs) r =
           (map (\<lambda>i. (?as ! i,
                       fst (ep (h (?bs ! i)) (foldl (\<lambda>r b. snd (ep (h b) r)) r (take i ?bs)))))
              [0 ..< length ?bs],
            foldl (\<lambda>r b. snd (ep (h b) r)) r ?bs)"
    by (rule propagate_loop_rays)
  have E: "propagate ep s h r =
     map (\<lambda>i. (?as ! i,
                fst (ep (h (?bs ! i)) (foldl (\<lambda>r b. snd (ep (h b) r)) r (take i ?bs)))))
         [0 ..< length (elements s) + 1]
     @ [(image' s, foldl (\<lambda>r b. snd (ep (h b) r)) r ?bs)]"
    unfolding propagate_def Let_def L by (simp add: last_zip_chain del: zip_Cons_Cons upt_Suc)
  obtain ys r' where P: "propagate ep s h r = ys @ [(image' s, r')]"
    and F: "map fst ys = object s # elements s"
    by (rule propagate_shape)
  from F have N: "length ys = length (elements s) + 1"
    by (metis length_map length_Cons Suc_eq_plus1)
  from P have T: "propagate_through ep s h r = snd (last (propagate ep s h r))"
    by (simp add: propagate_through_def foldl_keep_last)
  from E have "snd (last (propagate ep s h r)) = foldl (\<lambda>r b. snd (ep (h b) r)) r ?bs"
    by (simp only: last_snoc snd_conv)
  with E P F N T show ?thesis by simp
qed

section \<open>The height at the aperture\<close>

lemma height_loop_find:
  assumes "Aperture \<in> set (globals W)"
  shows "height_loop W h ps =
     Inr (map_option
            (\<lambda>(a, in_rays). map (\<lambda>(x, y, z). (fdiv W x (radius (h a)), fdiv W y (radius (h a))))
                                (end_positions in_rays))
            (find (\<lambda>(a, in_rays). cls (h a) = Aperture) ps))"
  using assms by (induction ps) (auto simp add: isinstance_Aperture_def)

lemma height_loop_unbound:
  assumes "Aperture \<notin> set (globals W)" and "ps \<noteq> []"
  shows "height_loop W h ps = Inl NameError"
  using assms by (cases ps) (auto simp add: isinstance_Aperture_def)

lemma find_None_fst:
  assumes "\<forall>a \<in> set (map fst ps). \<not> P a"
  shows "find (\<lambda>(a, r). P a) ps = None"
  using assms by (induction ps) auto

lemma find_Some_fst:
  assumes "\<exists>a \<in> set (map fst ps). P a"
  shows "\<exists>a r. find (\<lambda>(a, r). P a) ps = Some (a, r) \<and> P a"
  using assms by (induction ps) auto

text \<open>
  With the namespace that the import statements of \<open>system.py\<close> give, the name \<open>Aperture\<close>
  is not bound, and the test of the first pair raises NameError whatever the chain is.
\<close>

lemma height_at_aperture_as_imported:
  assumes "globals W = system_py_imports"
  shows "height_at_aperture W s h r = Inl NameError"
  using assms
  by (simp add: height_at_aperture_def height_loop_unbound propagate_not_Nil
      system_py_imports_def)

text \<open>
  C3: on a System whose chain (object, elements, image) has no Aperture,
  \<open>height_at_aperture\<close> returns no value: it ends without \<open>return\<close> when the name
  \<open>Aperture\<close> is bound, and raises NameError when it is not. In neither case does it return
  the height at another element.
\<close>

theorem height_without_aperture:
  assumes "\<forall>a \<in> set (object s # elements s @ [image' s]). cls (h a) \<noteq> Aperture"
  shows "height_at_aperture W s h r =
           (if Aperture \<in> set (globals W) then Inr None else Inl NameError)"
proof (cases "Aperture \<in> set (globals W)")
  case True
  have "map fst (propagate (elem_propagate W) s h r) = object s # elements s @ [image' s]"
    by (rule propagate_fst)
  with assms
  have "\<forall>a \<in> set (map fst (propagate (elem_propagate W) s h r)). \<not> cls (h a) = Aperture"
    by simp
  then have "find (\<lambda>(a, in_rays). cls (h a) = Aperture) (propagate (elem_propagate W) s h r) = None"
    by (rule find_None_fst)
  with True show ?thesis by (simp add: height_at_aperture_def height_loop_find)
next
  case False
  then show ?thesis
    by (simp add: height_at_aperture_def height_loop_unbound propagate_not_Nil)
qed

theorem height_without_aperture_witness:
  "list_all (\<lambda>a. cls (no_stop_heap a) \<noteq> Aperture)
     (object stop_last # elements stop_last @ [image' stop_last])
   \<and> height_at_aperture (demo_env all_classes) stop_last no_stop_heap one_ray = Inr None"
proof -
  have h: "\<forall>a \<in> set (object stop_last # elements stop_last @ [image' stop_last]).
             cls (no_stop_heap a) \<noteq> Aperture"
    by (simp add: stop_last_def no_stop_heap_def stop_last_heap_def elem_def)
  from height_without_aperture [OF h, of "demo_env all_classes" one_ray] h
  show ?thesis by (simp add: demo_env_def all_classes_def list_all_iff)
qed

text \<open>
  C6: the claim is that on a chain with an Aperture \<open>height_at_aperture\<close> returns the
  end positions at the first Aperture, divided by its radius. On \<open>stop_last\<close>, whose
  second element is an Aperture, and with the namespace that \<open>system.py\<close> imports, it
  raises NameError at the first pair and returns nothing.
\<close>

theorem height_at_aperture_stop_last_as_imported:
  "height_at_aperture (demo_env system_py_imports) stop_last stop_last_heap one_ray
     = Inl NameError"
  by (rule height_at_aperture_as_imported) (simp add: demo_env_def)

text \<open>
  Were the name \<open>Aperture\<close> bound, the code would do what is claimed: on a chain with an
  Aperture, \<open>height_at_aperture\<close> returns, for the first pair of \<open>propagate\<close> whose element
  is an Aperture, the \<open>x\<close> and \<open>y\<close> end positions of the rays of that pair, each divided
  by the radius of that element.
\<close>

lemma height_at_first_aperture:
  assumes "Aperture \<in> set (globals W)"
    and "\<exists>a \<in> set (object s # elements s @ [image' s]). cls (h a) = Aperture"
  shows "\<exists>a in_rays.
           find (\<lambda>(a, in_rays). cls (h a) = Aperture) (propagate (elem_propagate W) s h r)
             = Some (a, in_rays)
         \<and> height_at_aperture W s h r =
             Inr (Some (map (\<lambda>(x, y, z). (fdiv W x (radius (h a)), fdiv W y (radius (h a))))
                          (end_positions in_rays)))"
proof -
  have "map fst (propagate (elem_propagate W) s h r) = object s # elements s @ [image' s]"
    by (rule propagate_fst)
  with assms(2)
  have "\<exists>a \<in> set (map fst (propagate (elem_propagate W) s h r)). cls (h a) = Aperture"
    by simp
  then obtain a in_rays where
    "find (\<lambda>(a, in_rays). cls (h a) = Aperture) (propagate (elem_propagate W) s h r)
       = Some (a, in_rays)"
    using find_Some_fst [of "propagate (elem_propagate W) s h r" "\<lambda>a. cls (h a) = Aperture"]
    by blast
  then show ?thesis using assms(1) by (simp add: height_at_aperture_def height_loop_find)
qed

lemma demo_fns:
  "fneg (demo_env G) = uminus" "fadd (demo_env G) = (+)" "fsub (demo_env G) = (-)"
  "fmul (demo_env G) = (*)" "fdiv (demo_env G) = (/)" "flit (demo_env G) = rat_lit"
  "globals (demo_env G) = G" "elem_propagate (demo_env G) = demo_propagate"
  by (simp_all add: demo_env_def)

lemma demo_propagate_stop_last:
  "propagate demo_propagate stop_last stop_last_heap r =
     [(0, r\<lparr>end_positions := map (\<lambda>a. case a of [u, v] \<Rightarrow> (u + 1, v + 2, 0) | _ \<Rightarrow> (0, 0, 0)) (angles r)\<rparr>),
      (1, r\<lparr>end_positions := map (\<lambda>a. case a of [u, v] \<Rightarrow> (u + 1, v + 2, 0) | _ \<Rightarrow> (0, 0, 0)) (angles r)\<rparr>),
      (2, r\<lparr>end_positions := map (\<lambda>a. case a of [u, v] \<Rightarrow> (u + 1, v + 2, 0) | _ \<Rightarrow> (0, 0, 0)) (angles r)\<rparr>),
      (3, r)]"
  by (simp add: propagate_def stop_last_def demo_propagate_def Let_def)

lemma height_at_first_aperture_stop_last:
  "Aperture \<in> set (globals (demo_env all_classes))
   \<and> (\<exists>a \<in> set (object stop_last # elements stop_last @ [image' stop_last]).
        cls (stop_last_heap a) = Aperture)
   \<and> height_at_aperture (demo_env all_classes) stop_last stop_last_heap one_ray
       = Inr (Some [(4, 6)])"
proof -
  have g: "Aperture \<in> set (globals (demo_env all_classes))"
    by (simp add: demo_fns all_classes_def)
  have e: "\<exists>a \<in> set (object stop_last # elements stop_last @ [image' stop_last]).
             cls (stop_last_heap a) = Aperture"
    by (simp add: stop_last_def stop_last_heap_def elem_def)
  from height_at_first_aperture [OF g e, of one_ray] obtain a in_rays where
    f: "find (\<lambda>(a, in_rays). cls (stop_last_heap a) = Aperture)
          (propagate (elem_propagate (demo_env all_classes)) stop_last stop_last_heap one_ray)
        = Some (a, in_rays)"
    and v: "height_at_aperture (demo_env all_classes) stop_last stop_last_heap one_ray =
        Inr (Some (map (\<lambda>(x, y, z). (fdiv (demo_env all_classes) x (radius (stop_last_heap a)),
                                     fdiv (demo_env all_classes) y (radius (stop_last_heap a))))
                     (end_positions in_rays)))"
    by blast
  from f have "find (\<lambda>(a, in_rays). cls (stop_last_heap a) = Aperture)
          (propagate demo_propagate stop_last stop_last_heap one_ray) = Some (a, in_rays)"
    by (simp only: demo_fns)
  then have "a = 2 \<and> end_positions in_rays = [(4, 6, 0)]"
    unfolding demo_propagate_stop_last
    by (auto simp add: stop_last_heap_def elem_def one_ray_def)
  with v have "height_at_aperture (demo_env all_classes) stop_last stop_last_heap one_ray
       = Inr (Some [(4, 6)])"
    by (simp add: demo_fns stop_last_heap_def elem_def)
  with g e show ?thesis by blast
qed

section \<open>Aiming: \<open>chief_and_marginal\<close>\<close>

lemma count_apertures_bound:
  assumes "Aperture \<in> set G"
  shows "count_apertures G h es = Inr (length (filter (\<lambda>e. cls (h e) = Aperture) es))"
  using assms by (induction es) (auto simp add: isinstance_Aperture_def)

lemma count_apertures_unbound:
  assumes "Aperture \<notin> set G"
  shows "count_apertures G h es = (if es = [] then Inr 0 else Inl NameError)"
  using assms by (cases es) (auto simp add: isinstance_Aperture_def)

text \<open>
  With the namespace that the import statements of \<open>system.py\<close> give, the assertion
  itself raises NameError on the first element of a chain, and fails on an empty chain.
\<close>

lemma chief_and_marginal_as_imported:
  assumes "globals W = system_py_imports"
  shows "chief_and_marginal W s h height paraxial_chief paraxial_marginal st
           = (Inl (if elements s = [] then AssertionError else NameError), st)"
  using assms
  by (simp add: chief_and_marginal_def assert_one_aperture_def bnd_def lift_def ret_def
      count_apertures_unbound system_py_imports_def)

text \<open>
  C2: the claim is that on a chain whose number of Apertures is not one the call fails
  with an assertion failure. On a chain of two surfaces (no Aperture), with the namespace
  that \<open>system.py\<close> imports, the condition of the \<open>assert\<close> raises NameError at the first
  element: the call fails at once and leaves the state as it was, but not with an
  AssertionError.
\<close>

theorem chief_and_marginal_no_stop_as_imported:
  "chief_and_marginal (demo_env system_py_imports) stop_last no_stop_heap (0, 0) True True start
     = (Inl NameError, start)"
proof -
  have "globals (demo_env system_py_imports) = system_py_imports" by (simp add: demo_env_def)
  from chief_and_marginal_as_imported [OF this, of stop_last no_stop_heap "(0, 0)" True True start]
  show ?thesis by (simp add: stop_last_def)
qed

text \<open>
  Were the name \<open>Aperture\<close> bound, the code would do what is claimed: when the number of
  Apertures among the elements is not one, \<open>chief_and_marginal\<close> raises AssertionError
  for every height, every rays and both strategies, and the state is the one it was called
  with: \<open>stop_for_pos\<close> has not been evaluated and the rays have not been written.
\<close>

lemma chief_and_marginal_asserts:
  assumes "Aperture \<in> set (globals W)"
    and "length (filter (\<lambda>e. cls (h e) = Aperture) (elements s)) \<noteq> 1"
  shows "chief_and_marginal W s h height paraxial_chief paraxial_marginal st
           = (Inl AssertionError, st)"
  using assms
  by (simp add: chief_and_marginal_def assert_one_aperture_def bnd_def lift_def
      count_apertures_bound)

lemma chief_and_marginal_asserts_no_stop:
  "Aperture \<in> set (globals (demo_env all_classes))
   \<and> length (filter (\<lambda>e. cls (no_stop_heap e) = Aperture) (elements stop_last)) \<noteq> 1
   \<and> chief_and_marginal (demo_env all_classes) stop_last no_stop_heap (0, 0) True True start
       = (Inl AssertionError, start)"
proof -
  have g: "Aperture \<in> set (globals (demo_env all_classes))"
    by (simp add: demo_fns all_classes_def)
  have n: "length (filter (\<lambda>e. cls (no_stop_heap e) = Aperture) (elements stop_last)) \<noteq> 1"
    by (simp add: stop_last_def no_stop_heap_def stop_last_heap_def elem_def)
  from chief_and_marginal_asserts [OF g n, of "(0, 0)" True True start] g n
  show ?thesis by blast
qed

subsection \<open>Facts about the state monad and \<open>stop_for_pos\<close>\<close>

lemma bnd_Inr_elim:
  assumes "bnd m f st = (Inr r, st')"
  obtains a st1 where "m st = (Inr a, st1)" and "f a st1 = (Inr r, st')"
  using assms by (auto simp add: bnd_def split: prod.splits sum.splits)

lemma lift_Inr_iff: "lift r st = (Inr a, st') \<longleftrightarrow> r = Inr a \<and> st' = st"
  by (auto simp add: lift_def)

lemma ret_iff: "ret a st = (r, st') \<longleftrightarrow> r = Inr a \<and> st' = st"
  by (auto simp add: ret_def)

lemma stop_for_pos_shape:
  assumes "stop_for_pos W s h height x y st = (Inr v, st')"
  shows "\<exists>u w. v = Arr [u, w]"
  using assms
  by (auto simp add: stop_for_pos_def Let_def
      split: prod.splits sum.splits option.splits list.splits)

lemma stop_for_pos_bound:
  assumes "fst (stop_for_pos W s h height x y st) = Inr v"
  shows "Aperture \<in> set (globals W)"
proof (rule ccontr)
  assume "Aperture \<notin> set (globals W)"
  then have "height_at_aperture W s h r = Inl NameError" for r
    by (simp add: height_at_aperture_def height_loop_unbound propagate_not_Nil)
  then have "\<exists>e st'. stop_for_pos W s h height x y st = (Inl e, st')"
    by (simp add: stop_for_pos_def Let_def split: prod.splits)
  with assms show False by auto
qed

lemma stop_for_pos_snd:
  "snd (stop_for_pos W s h height x y st) =
     st\<lparr>rays := (rays st)\<lparr>positions := fst (rays_to_height W (h (object s)) (x, y) height),
                           angles := snd (rays_to_height W (h (object s)) (x, y) height)\<rparr>,
        probes := probes st @ [(x, y)]\<rparr>"
  by (auto simp add: stop_for_pos_def Let_def
      split: prod.splits sum.splits option.splits list.splits)

text \<open>
  What \<open>stop_for_pos\<close> returns does not depend on the evaluations made before: each one
  overwrites the positions and the angles of the rays, and nothing else of them changes.
\<close>

lemma stop_for_pos_fst_indep:
  "fst (stop_for_pos W s h height x y (snd (stop_for_pos W s h height x' y' st)))
     = fst (stop_for_pos W s h height x y st)"
  apply (simp only: stop_for_pos_snd)
  apply (simp add: stop_for_pos_def Let_def
      split: prod.splits sum.splits option.splits list.splits)
  done

lemma stop_for_pos_probes:
  "probes (snd (stop_for_pos W s h height x y st)) = probes st @ [(x, y)]"
  by (simp add: stop_for_pos_snd)

subsection \<open>The paraxial chief ray\<close>

text \<open>
  C4: the claim is that in paraxial-chief mode the chief ray comes from exactly two
  evaluations of \<open>stop_for_pos\<close>. On \<open>stop_last\<close>, which has exactly one Aperture, in
  paraxial-chief mode and with the namespace that \<open>system.py\<close> imports, the condition of
  the \<open>assert\<close> raises NameError: the call ends with the state it was given, in which no
  evaluation of \<open>stop_for_pos\<close> is recorded, and no chief ray is computed.
\<close>

theorem paraxial_chief_as_imported:
  "chief_and_marginal (demo_env system_py_imports) stop_last stop_last_heap (0, 0) True True start
     = (Inl NameError, start)
   \<and> probes start = []"
proof -
  have "globals (demo_env system_py_imports) = system_py_imports" by (simp add: demo_env_def)
  from chief_and_marginal_as_imported [OF this, of stop_last stop_last_heap "(0, 0)" True True start]
  show ?thesis by (simp add: stop_last_def start_def)
qed

text \<open>
  Were the name \<open>Aperture\<close> bound, the code would do what is claimed.
  Let the chain have exactly one Aperture, and let \<open>stop_for_pos\<close> return
  \<open>(a0, b0)\<close> at \<open>(0, 0)\<close> and \<open>(a1, b1)\<close> at \<open>(d, d)\<close>, with \<open>d = 1e-3\<close>. Then in
  paraxial-chief mode the chief ray is computed, it is \<open>-d * f(0) / (f(d) - f(0))\<close> in
  each component, and computing it evaluates \<open>stop_for_pos\<close> exactly twice: at \<open>(0, 0)\<close>,
  then at \<open>(d, d)\<close>. \<open>chief_and_marginal\<close> goes on with the marginal rays from that
  state and returns this chief ray with them.
\<close>

lemma paraxial_chief_secant:
  assumes one: "length (filter (\<lambda>e. cls (h e) = Aperture) (elements s)) = 1"
    and f0: "fst (stop_for_pos W s h height (flit W 0 0) (flit W 0 0) st) = Inr (Arr [a0, b0])"
    and fd: "fst (stop_for_pos W s h height (flit W 1 (- 3)) (flit W 1 (- 3)) st)
               = Inr (Arr [a1, b1])"
  shows "\<exists>st1.
      chief_phase W s h height True st =
        (Inr (Arr [fdiv W (fmul W (fneg W (flit W 1 (- 3))) a0) (fsub W a1 a0),
                   fdiv W (fmul W (fneg W (flit W 1 (- 3))) b0) (fsub W b1 b0)]), st1)
    \<and> probes st1 = probes st @ [(flit W 0 0, flit W 0 0), (flit W 1 (- 3), flit W 1 (- 3))]
    \<and> chief_and_marginal W s h height True paraxial_marginal st =
        bnd (if paraxial_marginal
             then marginal_paraxial W s h height
                    (Arr [fdiv W (fmul W (fneg W (flit W 1 (- 3))) a0) (fsub W a1 a0),
                          fdiv W (fmul W (fneg W (flit W 1 (- 3))) b0) (fsub W b1 b0)])
             else marginal_exact W s h height
                    (Arr [fdiv W (fmul W (fneg W (flit W 1 (- 3))) a0) (fsub W a1 a0),
                          fdiv W (fmul W (fneg W (flit W 1 (- 3))) b0) (fsub W b1 b0)]))
          (\<lambda>marginals.
             ret (Arr [fdiv W (fmul W (fneg W (flit W 1 (- 3))) a0) (fsub W a1 a0),
                       fdiv W (fmul W (fneg W (flit W 1 (- 3))) b0) (fsub W b1 b0)],
                  marginals)) st1"
proof -
  let ?z = "flit W 0 0" and ?d = "flit W 1 (- 3)"
  let ?C = "Arr [fdiv W (fmul W (fneg W ?d) a0) (fsub W a1 a0),
                 fdiv W (fmul W (fneg W ?d) b0) (fsub W b1 b0)]"
  define s1 where "s1 = snd (stop_for_pos W s h height ?z ?z st)"
  define s2 where "s2 = snd (stop_for_pos W s h height ?d ?d s1)"
  have e0: "stop_for_pos W s h height ?z ?z st = (Inr (Arr [a0, b0]), s1)"
    using f0 by (simp add: s1_def prod_eq_iff)
  have "fst (stop_for_pos W s h height ?d ?d s1) = Inr (Arr [a1, b1])"
    unfolding s1_def using fd by (simp only: stop_for_pos_fst_indep)
  then have e1: "stop_for_pos W s h height ?d ?d s1 = (Inr (Arr [a1, b1]), s2)"
    by (simp add: s2_def prod_eq_iff)
  have c: "chief_phase W s h height True st = (Inr ?C, s2)"
    by (simp add: chief_phase_def Let_def bnd_def e0 e1 lift_def)
  have p: "probes s2 = probes st @ [(?z, ?z), (?d, ?d)]"
    by (simp add: s2_def s1_def stop_for_pos_probes)
  have "Aperture \<in> set (globals W)" using f0 by (rule stop_for_pos_bound)
  with one have "count_apertures (globals W) h (elements s) = Inr 1"
    by (simp add: count_apertures_bound)
  then have a: "assert_one_aperture W s h st = (Inr (), st)"
    by (simp add: assert_one_aperture_def bnd_def lift_def ret_def)
  have "chief_and_marginal W s h height True paraxial_marginal st =
        bnd (if paraxial_marginal then marginal_paraxial W s h height ?C
             else marginal_exact W s h height ?C) (\<lambda>marginals. ret (?C, marginals)) s2"
    by (simp add: chief_and_marginal_def bnd_def a c)
  with c p show ?thesis by blast
qed

lemma demo_height:
  "height_at_aperture (demo_env all_classes) stop_last stop_last_heap r =
     Inr (Some (map (\<lambda>a. case a of [u, v] \<Rightarrow> (u + 1, v + 2) | _ \<Rightarrow> (0, 0)) (angles r)))"
  apply (simp add: height_at_aperture_def demo_env_def demo_propagate_stop_last)
  apply (simp add: isinstance_Aperture_def all_classes_def stop_last_heap_def elem_def)
  apply (induction "angles r")
   apply (auto split: list.splits)
  done

lemma demo_stop_for_pos:
  "stop_for_pos (demo_env all_classes) stop_last stop_last_heap height x y st =
     (Inr (Arr [x + 1, y + 2]),
      st\<lparr>rays := (rays st)\<lparr>positions := [[0, 0, 0]], angles := [[x, y]]\<rparr>,
         probes := probes st @ [(x, y)]\<rparr>)"
  apply (simp add: stop_for_pos_def demo_height Let_def split: prod.splits)
  apply (simp add: demo_env_def)
  done

lemma demo_count: "count_apertures all_classes stop_last_heap (elements stop_last) = Inr 1"
  by (simp add: isinstance_Aperture_def all_classes_def stop_last_heap_def stop_last_def elem_def)

lemma paraxial_chief_secant_stop_last:
  "length (filter (\<lambda>e. cls (stop_last_heap e) = Aperture) (elements stop_last)) = 1
   \<and> fst (stop_for_pos (demo_env all_classes) stop_last stop_last_heap (0, 0) 0 0 start)
       = Inr (Arr [1, 2])
   \<and> fst (stop_for_pos (demo_env all_classes) stop_last stop_last_heap (0, 0)
            (1 / 1000) (1 / 1000) start)
       = Inr (Arr [1001 / 1000, 2001 / 1000])
   \<and> fst (chief_phase (demo_env all_classes) stop_last stop_last_heap (0, 0) True start)
       = Inr (Arr [- 1, - 2])
   \<and> probes (snd (chief_phase (demo_env all_classes) stop_last stop_last_heap (0, 0) True start))
       = [(0, 0), (1 / 1000, 1 / 1000)]"
proof -
  let ?W = "demo_env all_classes"
  have z: "flit ?W 0 0 = 0" and d: "flit ?W 1 (- 3) = 1 / 1000"
    by (simp_all add: demo_fns rat_lit_def)
  have one: "length (filter (\<lambda>e. cls (stop_last_heap e) = Aperture) (elements stop_last)) = 1"
    by (simp add: stop_last_def stop_last_heap_def elem_def)
  have f0: "fst (stop_for_pos ?W stop_last stop_last_heap (0, 0) (flit ?W 0 0) (flit ?W 0 0) start)
              = Inr (Arr [1, 2])"
    by (simp add: demo_stop_for_pos z)
  have fd: "fst (stop_for_pos ?W stop_last stop_last_heap (0, 0)
                   (flit ?W 1 (- 3)) (flit ?W 1 (- 3)) start)
              = Inr (Arr [1001 / 1000, 2001 / 1000])"
    by (simp add: demo_stop_for_pos d)
  from paraxial_chief_secant [OF one f0 fd, of True] obtain st1 where
    c: "chief_phase ?W stop_last stop_last_heap (0, 0) True start =
          (Inr (Arr [fdiv ?W (fmul ?W (fneg ?W (flit ?W 1 (- 3))) 1) (fsub ?W (1001 / 1000) 1),
                     fdiv ?W (fmul ?W (fneg ?W (flit ?W 1 (- 3))) 2) (fsub ?W (2001 / 1000) 2)]),
           st1)"
    and p: "probes st1 = probes start @ [(flit ?W 0 0, flit ?W 0 0),
                                          (flit ?W 1 (- 3), flit ?W 1 (- 3))]"
    by blast
  from c have "fst (chief_phase ?W stop_last stop_last_heap (0, 0) True start)
                 = Inr (Arr [- 1, - 2])"
    by (simp add: demo_fns rat_lit_def)
  moreover from c p
  have "probes (snd (chief_phase ?W stop_last stop_last_heap (0, 0) True start))
          = [(0, 0), (1 / 1000, 1 / 1000)]"
    by (simp add: z d start_def)
  ultimately show ?thesis using one f0 fd by (simp add: z d)
qed

subsection \<open>The shape of the result\<close>

lemma demo_aim:
  "chief_and_marginal (demo_env all_classes) stop_last stop_last_heap (0, 0) True True start =
     (Inr (Arr [- 1, - 2], Num 0, Num (- 2), Num (- 1), Num (- 3)),
      \<lparr>rays = no_rays\<lparr>positions := [[0, 0, 0]], angles := [[- 1, - 2]]\<rparr>,
       probes = [(0, 0), (1 / 1000, 1 / 1000), (- (999 / 1000), - (1999 / 1000)), (- 1, - 2)]\<rparr>)"
  by (simp add: chief_and_marginal_def assert_one_aperture_def chief_phase_def
      marginal_paraxial_def bnd_def lift_def ret_def Let_def demo_stop_for_pos demo_fns demo_count
      rat_lit_def start_def)

text \<open>
  With the namespace that \<open>system.py\<close> imports no call of \<open>chief_and_marginal\<close> returns
  (\<open>chief_and_marginal_as_imported\<close>), so there is no result to look at. Were the name
  \<open>Aperture\<close> bound, the result on the lens \<open>stop_last\<close>, with both paraxial strategies,
  would be the chief ray \<open>(-1, -2)\<close>, a 2-vector, and four marginals that are single
  numbers.
\<close>

lemma marginals_are_scalars:
  "fst (chief_and_marginal (demo_env all_classes) stop_last stop_last_heap (0, 0) True True start)
     = Inr (Arr [- 1, - 2], Num 0, Num (- 2), Num (- 1), Num (- 3))"
  by (simp add: demo_aim)

lemma chief_phase_shape:
  assumes "chief_phase W s h height pc st = (Inr chief, st')"
    and "\<And>f x0 xtol eps st0 sol st1.
           fsolve W f x0 xtol eps st0 = (Inr sol, st1) \<Longrightarrow> length sol = length x0"
  shows "\<exists>cx cy. chief = Arr [cx, cy]"
proof (cases pc)
  case True
  with assms(1) obtain d0 s1 num fd s2 den where
    a: "stop_for_pos W s h height (flit W 0 0) (flit W 0 0) st = (Inr d0, s1)"
    and n: "np_binop (fmul W) (Num (fneg W (flit W 1 (- 3)))) d0 = Inr num"
    and b: "stop_for_pos W s h height (flit W 1 (- 3)) (flit W 1 (- 3)) s1 = (Inr fd, s2)"
    and d: "np_binop (fsub W) fd d0 = Inr den"
    and c: "np_binop (fdiv W) num den = Inr chief"
    by (auto simp add: chief_phase_def Let_def lift_Inr_iff elim!: bnd_Inr_elim)
  from stop_for_pos_shape [OF a] stop_for_pos_shape [OF b] n d c show ?thesis by auto
next
  case False
  with assms(1) obtain sol where
    r: "fsolve W (\<lambda>p. bnd (lift (star2 (Arr p))) (\<lambda>(x, y). stop_for_pos W s h height x y))
               [flit W 0 0, flit W 0 0] (flit W 1 (- 2)) (flit W 1 (- 3)) st = (Inr sol, st')"
    and c: "chief = Arr sol"
    by (auto simp add: chief_phase_def Let_def ret_iff elim!: bnd_Inr_elim)
  from assms(2) [OF r] have "length sol = 2" by simp
  then obtain cx cy where "sol = [cx, cy]"
    by (cases sol; cases "tl sol"; auto)
  with c show ?thesis by simp
qed

lemma marginal_paraxial_values:
  assumes "marginal_paraxial W s h height (Arr [cx, cy]) st = (Inr (px, nx, py, ny), st')"
  shows "\<exists>u w u0 w0 s1.
           stop_for_pos W s h height (fadd W cx (flit W 1 (- 3))) (fadd W cy (flit W 1 (- 3))) st
             = (Inr (Arr [u, w]), s1)
         \<and> stop_for_pos W s h height cx cy s1 = (Inr (Arr [u0, w0]), st')
         \<and> px = Num (fadd W cx (fdiv W (flit W 1 (- 3)) (fsub W u u0)))
         \<and> nx = Num (fsub W cx (fdiv W (flit W 1 (- 3)) (fsub W u u0)))
         \<and> py = Num (fadd W cy (fdiv W (flit W 1 (- 3)) (fsub W w w0)))
         \<and> ny = Num (fsub W cy (fdiv W (flit W 1 (- 3)) (fsub W w w0)))"
proof -
  from assms obtain f1 s1 f0 s2 df dmarg where
    a: "stop_for_pos W s h height (fadd W cx (flit W 1 (- 3))) (fadd W cy (flit W 1 (- 3))) st
          = (Inr f1, s1)"
    and b: "stop_for_pos W s h height cx cy s1 = (Inr f0, s2)"
    and df: "np_binop (fsub W) f1 f0 = Inr df"
    and dm: "np_binop (fdiv W) (Num (flit W 1 (- 3))) df = Inr dmarg"
    and p: "(case np_binop (fadd W) (Arr [cx, cy]) dmarg of Inl e \<Rightarrow> Inl e | Inr v \<Rightarrow> unpack2 v)
              = Inr (px, py)"
    and n: "(case np_binop (fsub W) (Arr [cx, cy]) dmarg of Inl e \<Rightarrow> Inl e | Inr v \<Rightarrow> unpack2 v)
              = Inr (nx, ny)"
    and e: "st' = s2"
    by (auto simp add: marginal_paraxial_def Let_def lift_Inr_iff ret_iff bnd_def lift_def
        split: prod.splits sum.splits)
  from stop_for_pos_shape [OF a] stop_for_pos_shape [OF b] a b df dm p n e show ?thesis
    by fastforce
qed

lemma marginal_exact_values:
  assumes "marginal_exact W s h height (Arr [cx, cy]) st = (Inr (px, nx, py, ny), st')"
  shows "\<exists>a b c e s1 s2 s3.
           px = Num a \<and> nx = Num b \<and> py = Num c \<and> ny = Num e
         \<and> newton W (edge_x W s h height (Arr [cx, cy]) (\<lambda>v. fsub W v (flit W 1 0)))
               (fadd W cx (flit W 1 (- 3))) st = (Inr a, s1)
         \<and> newton W (edge_x W s h height (Arr [cx, cy]) (\<lambda>v. fadd W v (flit W 1 0)))
               (fsub W cx (flit W 1 (- 3))) s1 = (Inr b, s2)
         \<and> newton W (edge_y W s h height (Arr [cx, cy]) (\<lambda>v. fsub W v (flit W 1 0)))
               (fadd W cy (flit W 1 (- 3))) s2 = (Inr c, s3)
         \<and> newton W (edge_y W s h height (Arr [cx, cy]) (\<lambda>v. fadd W v (flit W 1 0)))
               (fsub W cy (flit W 1 (- 3))) s3 = (Inr e, st')"
  using assms
  by (auto simp add: marginal_exact_def Let_def lift_Inr_iff ret_iff elim!: bnd_Inr_elim)

text \<open>
  The shape of every result: whenever \<open>chief_and_marginal\<close> returns, with either strategy for the chief
  ray and either for the marginals, and \<open>fsolve\<close> keeps its contract of returning an array
  of the length of its starting point, the result is a pair of the chief ray, a 2-vector
  \<open>(cx, cy)\<close>, and a tuple of four numbers in the order \<open>(+x, -x, +y, -y)\<close>. In the
  paraxial strategy these are \<open>cx + dx\<close>, \<open>cx - dx\<close>, \<open>cy + dy\<close>, \<open>cy - dy\<close> for the
  step \<open>(dx, dy) = d / (f(chief + d) - f(chief))\<close>, where \<open>f\<close> is \<open>stop_for_pos\<close>. In the exact strategy they are what \<open>newton\<close> returns, in this
  order, for the pupil \<open>x\<close> minus one from \<open>cx + d\<close>, the pupil \<open>x\<close> plus one from
  \<open>cx - d\<close>, the pupil \<open>y\<close> minus one from \<open>cy + d\<close> and the pupil \<open>y\<close> plus one from
  \<open>cy - d\<close>.
\<close>

lemma chief_and_marginal_result:
  assumes "chief_and_marginal W s h height paraxial_chief paraxial_marginal st
             = (Inr (chief, px, nx, py, ny), st')"
    and "\<And>f x0 xtol eps st0 sol st1.
           fsolve W f x0 xtol eps st0 = (Inr sol, st1) \<Longrightarrow> length sol = length x0"
  shows "\<exists>cx cy a b c e.
           chief = Arr [cx, cy] \<and> px = Num a \<and> nx = Num b \<and> py = Num c \<and> ny = Num e
         \<and> (paraxial_marginal \<longrightarrow>
              (\<exists>u w u0 w0 s0 s1.
                  stop_for_pos W s h height (fadd W cx (flit W 1 (- 3)))
                    (fadd W cy (flit W 1 (- 3))) s0 = (Inr (Arr [u, w]), s1)
                \<and> stop_for_pos W s h height cx cy s1 = (Inr (Arr [u0, w0]), st')
                \<and> a = fadd W cx (fdiv W (flit W 1 (- 3)) (fsub W u u0))
                \<and> b = fsub W cx (fdiv W (flit W 1 (- 3)) (fsub W u u0))
                \<and> c = fadd W cy (fdiv W (flit W 1 (- 3)) (fsub W w w0))
                \<and> e = fsub W cy (fdiv W (flit W 1 (- 3)) (fsub W w w0))))
         \<and> (\<not> paraxial_marginal \<longrightarrow>
              (\<exists>s0 s1 s2 s3.
                  newton W (edge_x W s h height chief (\<lambda>v. fsub W v (flit W 1 0)))
                    (fadd W cx (flit W 1 (- 3))) s0 = (Inr a, s1)
                \<and> newton W (edge_x W s h height chief (\<lambda>v. fadd W v (flit W 1 0)))
                    (fsub W cx (flit W 1 (- 3))) s1 = (Inr b, s2)
                \<and> newton W (edge_y W s h height chief (\<lambda>v. fsub W v (flit W 1 0)))
                    (fadd W cy (flit W 1 (- 3))) s2 = (Inr c, s3)
                \<and> newton W (edge_y W s h height chief (\<lambda>v. fadd W v (flit W 1 0)))
                    (fsub W cy (flit W 1 (- 3))) s3 = (Inr e, st')))"
proof -
  from assms(1) obtain s1 s2 where
    c: "chief_phase W s h height paraxial_chief s1 = (Inr chief, s2)"
    and m: "(if paraxial_marginal then marginal_paraxial W s h height chief
             else marginal_exact W s h height chief) s2 = (Inr (px, nx, py, ny), st')"
    by (auto simp add: chief_and_marginal_def ret_iff elim!: bnd_Inr_elim)
  have "\<exists>cx cy. chief = Arr [cx, cy]"
    by (rule chief_phase_shape [OF c]) (erule assms(2))
  then obtain cx cy where ch: "chief = Arr [cx, cy]" by blast
  show ?thesis
  proof (cases paraxial_marginal)
    case True
    with m ch
    have "marginal_paraxial W s h height (Arr [cx, cy]) s2 = (Inr (px, nx, py, ny), st')"
      by simp
    from marginal_paraxial_values [OF this] ch True show ?thesis by fastforce
  next
    case False
    with m ch
    have "marginal_exact W s h height (Arr [cx, cy]) s2 = (Inr (px, nx, py, ny), st')"
      by simp
    from marginal_exact_values [OF this] ch False show ?thesis by fastforce
  qed
qed

lemma demo_fsolve_length:
  assumes "fsolve (demo_env G) f x0 xtol eps st0 = (Inr sol, st1)"
  shows "length sol = length x0"
  using assms
  by (auto simp add: demo_env_def bnd_def ret_def split: prod.splits sum.splits)

lemma chief_and_marginal_result_stop_last:
  "\<exists>cx cy a b c e.
     fst (chief_and_marginal (demo_env all_classes) stop_last stop_last_heap (0, 0) True True start)
       = Inr (Arr [cx, cy], Num a, Num b, Num c, Num e)"
proof -
  let ?W = "demo_env all_classes"
  obtain r st' where r: "chief_and_marginal ?W stop_last stop_last_heap (0, 0) True True start
                           = (Inr r, st')"
    using demo_aim by blast
  obtain chief px nx py ny where s: "r = (chief, px, nx, py, ny)" by (cases r) auto
  have c: "\<And>f x0 xtol eps st0 sol st1.
      fsolve ?W f x0 xtol eps st0 = (Inr sol, st1) \<Longrightarrow> length sol = length x0"
    by (erule demo_fsolve_length)
  from chief_and_marginal_result [of ?W stop_last stop_last_heap "(0, 0)" True True start
      chief px nx py ny st'] r s c
  have "\<exists>cx cy a b c e.
           chief = Arr [cx, cy] \<and> px = Num a \<and> nx = Num b \<and> py = Num c \<and> ny = Num e"
    by blast
  with r s show ?thesis by auto
qed

section \<open>The objective vector\<close>

text \<open>
  C7 as stated: for every candidate vector the objective vector is the concatenation of
  the weighted, flattened demerit outputs. Without any demerit there is no objective
  vector: \<open>np.concatenate\<close> of an empty list raises ValueError.
\<close>

theorem objective_function_counterexample:
  "objective_function (demo_env system_py_imports) (\<lambda>st. 7) [one_ray] [demo_parameter]
     ([] :: (rat, rat) demerit list) [3] (stop_last, stop_last_heap) = Inl ValueError"
  by (simp add: objective_function_def np_concatenate_def Let_def)

text \<open>A demerit whose output is ragged ends the evaluation as well.\<close>

lemma objective_function_ragged:
  "objective_function (demo_env system_py_imports) (\<lambda>st. 7) [one_ray] [demo_parameter]
     [ragged_demerit] [3] (stop_last, stop_last_heap) = Inl ValueError"
  by (simp add: objective_function_def np_array_flat_def ragged_demerit_def Let_def)

lemma set_values_foldl:
  assumes "length parameters + i \<le> length x"
  shows "set_values parameters i x st =
           Inr (foldl (\<lambda>st (j, p). set_value p st (x ! j)) st
                  (zip [i ..< i + length parameters] parameters))"
  using assms
proof (induction parameters arbitrary: i st)
  case Nil
  then show ?case by simp
next
  case (Cons p ps)
  then have "set_values ps (Suc i) x (set_value p st (x ! i)) =
      Inr (foldl (\<lambda>st (j, p). set_value p st (x ! j)) (set_value p st (x ! i))
             (zip [Suc i ..< Suc i + length ps] ps))"
    by simp
  moreover have "[i ..< i + length (p # ps)] = i # [Suc i ..< Suc i + length ps]"
  proof -
    have "[i ..< Suc (i + length ps)] = i # [Suc i ..< Suc (i + length ps)]"
      by (rule upt_conv_Cons) simp
    then show ?thesis by (simp del: upt_Suc)
  qed
  ultimately show ?case using Cons.prems by (simp del: upt_Suc)
qed

lemma weighted_arrays:
  assumes "\<forall>de \<in> set demerits. shape_of (call de st p r) \<noteq> None"
  shows "weighted W st p r demerits =
           Inr (map (\<lambda>de. map (\<lambda>v. fmul W v (weight de)) (reshape_flat (call de st p r)))
                  demerits)"
  using assms by (induction demerits) (auto simp add: np_array_flat_def)

text \<open>
  C7 amended: for every candidate vector \<open>x\<close> that has an entry for each parameter, and
  at least one demerit, all demerits returning arrays (nestings that are not ragged), the
  objective vector is the concatenation, in demerit order, of each demerit's flattened
  output times its weight; each demerit is evaluated on the System \<open>st'\<close> that results
  from writing \<open>x[i]\<close> with the \<open>set_value\<close> of parameter \<open>i\<close>, for \<open>i\<close> = 0, 1, ... in
  this order, on the paraxial trace of \<open>st'\<close>, and on the rays that \<open>propagate_through\<close>
  returns on \<open>st'\<close> for every supplied bundle.
\<close>

theorem objective_function_value:
  assumes "demerits \<noteq> []" and "length parameters \<le> length x"
    and "\<forall>de \<in> set demerits. \<forall>st p r. shape_of (call de st p r) \<noteq> None"
  shows "objective_function W ptrace rays_in parameters demerits x st =
     (let st' = foldl (\<lambda>st (i, p). set_value p st (x ! i)) st
                  (zip [0 ..< length parameters] parameters);
          p = ptrace st';
          r = map (propagate_through (elem_propagate W) (fst st') (snd st')) rays_in
      in Inr (concat (map (\<lambda>de. map (\<lambda>v. fmul W v (weight de)) (reshape_flat (call de st' p r)))
                        demerits),
              st'))"
proof -
  from assms(2) have "set_values parameters 0 x st =
      Inr (foldl (\<lambda>st (i, p). set_value p st (x ! i)) st
             (zip [0 ..< length parameters] parameters))"
    using set_values_foldl [of parameters 0 x st] by simp
  moreover from assms(3)
  have "weighted W st' p r demerits =
          Inr (map (\<lambda>de. map (\<lambda>v. fmul W v (weight de)) (reshape_flat (call de st' p r)))
                 demerits)" for st' p r
    by (intro weighted_arrays) (metis surj_pair)
  ultimately show ?thesis using assms(1)
    by (simp add: objective_function_def Let_def np_concatenate_def)
qed

theorem objective_function_value_witness:
  "[demo_demerit] \<noteq> [] \<and> length [demo_parameter] \<le> length [3 :: rat]
   \<and> list_all (\<lambda>de. shape_of (call de (stop_last, stop_last_heap) 7 [one_ray]) = Some [2, 1])
       [demo_demerit]
   \<and> map_sum id fst
       (objective_function (demo_env system_py_imports) (\<lambda>st. 7) [one_ray] [demo_parameter]
          [demo_demerit] [3] (stop_last, stop_last_heap))
     = Inr [6, 14]"
proof -
  have a: "[demo_demerit] \<noteq> []" and b: "length [demo_parameter] \<le> length [3 :: rat]"
    by simp_all
  have c: "\<forall>de \<in> set [demo_demerit]. \<forall>st p r. shape_of (call de st p r) \<noteq> None"
    by (simp add: demo_demerit_def)
  from objective_function_value [OF a b c, of "demo_env system_py_imports" "\<lambda>st. 7" "[one_ray]"
      "(stop_last, stop_last_heap)"]
  show ?thesis
    by (simp add: Let_def demo_parameter_def demo_demerit_def demo_fns)
qed

section \<open>Reverting a System twice\<close>

text \<open>
  C1: the claim is that for every System two calls of \<open>revert\<close> restore the order, the
  origins and the materials. The loop of \<open>revert\<close> passes over an element without a
  material (\<open>hasattr(e, "material")\<close>), but the read \<open>self.elements[-1].material\<close> before it
  has no such guard. On \<open>stop_first\<close>, whose first element is an aperture without a
  material, the first call returns, with the chain reversed, and the second call raises
  AttributeError at that read: the System stays reverted.
\<close>

theorem revert_twice_stop_first:
  "revert_twice (\<lambda>e. e) stop_first stop_first_heap = Inl AttributeError
   \<and> map_sum id (\<lambda>p. elements (fst p)) (revert (\<lambda>e. e) stop_first stop_first_heap) = Inr [2, 1]"
  by (simp add: revert_twice_def revert_def stop_first_def stop_first_heap_def elem_def Let_def)

lemma shifted_append: "shifted m (xs @ ys) = shifted m xs @ shifted (carried m xs) ys"
  by (induction m xs rule: shifted.induct) auto

lemma carried_append: "carried m (xs @ ys) = carried (carried m xs) ys"
  by (induction m xs rule: carried.induct) auto

lemma shifted_back:
  "shifted (carried m xs) (rev (shifted m xs)) = rev xs
   \<and> carried (carried m xs) (rev (shifted m xs)) = m"
  by (induction m xs rule: shifted.induct) (auto simp add: shifted_append carried_append)

lemma carried_last: "xs \<noteq> [] \<Longrightarrow> last xs = Some ml \<Longrightarrow> carried m xs = ml"
  by (induction m xs rule: carried.induct) (auto split: if_splits)

lemma shifted_hd: "shifted m (Some m' # xs) = Some m # shifted m' xs"
  by simp

lemma shifted_length: "length (shifted m xs) = length xs"
  by (induction m xs rule: shifted.induct) auto

lemma shift_materials_frame: "a \<notin> set as \<Longrightarrow> shift_materials h as m a = h a"
  by (induction as arbitrary: h m) (auto split: option.splits)

lemma shift_materials_origin: "origin (shift_materials h as m a) = origin (h a)"
  by (induction as arbitrary: h m) (auto split: option.splits)

lemma shift_materials_map:
  "distinct as \<Longrightarrow>
     map (\<lambda>a. material (shift_materials h as m a)) as = shifted m (map (\<lambda>a. material (h a)) as)"
proof (induction as arbitrary: h m)
  case Nil
  then show ?case by simp
next
  case (Cons a as)
  then have d: "distinct as" and n: "a \<notin> set as" by simp_all
  show ?case
  proof (cases "material (h a)")
    case None
    with n Cons.IH [OF d, of h m] show ?thesis by (simp add: shift_materials_frame)
  next
    case (Some m')
    let ?h = "h(a := (h a)\<lparr>material := Some m\<rparr>)"
    have "map (\<lambda>a. material (?h a)) as = map (\<lambda>a. material (h a)) as"
      using n by (auto simp add: map_eq_conv)
    with Cons.IH [OF d, of ?h m']
    have t: "map (\<lambda>b. material (shift_materials ?h as m' b)) as
          = shifted m' (map (\<lambda>b. material (h b)) as)"
      by (simp only:)
    have "material (shift_materials ?h as m' a) = Some m"
      using n by (simp add: shift_materials_frame)
    with Some t show ?thesis by simp
  qed
qed

lemma shift_origins_frame: "a \<notin> set as \<Longrightarrow> shift_origins erev h as d a = h a"
  by (induction as arbitrary: h d) (auto simp add: Let_def)

lemma shift_origins_material:
  assumes "\<And>e. material (erev e) = material e"
  shows "material (shift_origins erev h as d a) = material (h a)"
  by (induction as arbitrary: h d) (auto simp add: Let_def assms)

lemma shift_origins_map:
  assumes "\<And>e. origin (erev e) = origin e"
  shows "distinct as \<Longrightarrow>
     map (\<lambda>a. origin (shift_origins erev h as d a)) as = butlast (d # map (\<lambda>a. origin (h a)) as)"
proof (induction as arbitrary: h d)
  case Nil
  then show ?case by simp
next
  case (Cons a as)
  then have d: "distinct as" and n: "a \<notin> set as" by simp_all
  let ?h = "(h(a := erev (h a)))(a := (erev (h a))\<lparr>origin := d\<rparr>)"
  have m: "map (\<lambda>a. origin (?h a)) as = map (\<lambda>a. origin (h a)) as"
    using n by (auto simp add: map_eq_conv)
  from Cons.IH [OF d, of ?h "origin (h a)"] m
  have t: "map (\<lambda>b. origin (shift_origins erev ?h as (origin (h a)) b)) as
        = butlast (origin (h a) # map (\<lambda>b. origin (h b)) as)"
    by (simp only:)
  have "origin (shift_origins erev ?h as (origin (h a)) a) = d"
    using n by (simp add: shift_origins_frame)
  moreover have "shift_origins erev h (a # as) d = shift_origins erev ?h as (origin (h a))"
    by (simp add: Let_def assms)
  ultimately show ?case using t by (simp del: shift_origins.simps fun_upd_apply)
qed

lemma butlast_round:
  "os \<noteq> [] \<Longrightarrow> butlast (hd os # rev (butlast (x # rev os))) = os"
  by (cases os) (auto simp add: butlast_append)


lemma revert_effect:
  assumes mo: "material (h (object s)) = Some m0"
    and ne: "elements s \<noteq> []"
    and ml: "material (h (last (elements s))) = Some ml"
    and di: "distinct (object s # elements s @ [image' s])"
    and eo: "\<And>e. origin (erev e) = origin e"
    and em: "\<And>e. material (erev e) = material e"
  obtains h' where "revert erev s h = Inr (s\<lparr>elements := rev (elements s)\<rparr>, h')"
    and "material (h' (object s)) = Some ml"
    and "map (\<lambda>a. material (h' a)) (elements s)
           = shifted m0 (map (\<lambda>a. material (h a)) (elements s))"
    and "origin (h' (image' s)) = origin (h (hd (elements s)))"
    and "map (\<lambda>a. origin (h' a)) (rev (elements s))
           = butlast (origin (h (image' s)) # map (\<lambda>a. origin (h a)) (rev (elements s)))"
proof -
  let ?es = "elements s"
  define h1 where "h1 = h(object s := (h (object s))\<lparr>material := Some ml\<rparr>)"
  define h2 where "h2 = shift_materials h1 ?es m0"
  define h3 where "h3 = h2(image' s := (h2 (image' s))\<lparr>origin := origin (h2 (hd ?es))\<rparr>)"
  define h4 where "h4 = shift_origins erev h3 (rev ?es) (origin (h2 (image' s)))"
  from di have oe: "object s \<notin> set ?es" and ie: "image' s \<notin> set ?es"
    and oi: "object s \<noteq> image' s" and de: "distinct ?es"
    by auto
  have r: "revert erev s h = Inr (s\<lparr>elements := rev ?es\<rparr>, h4)"
    by (simp add: revert_def mo ne ml Let_def h1_def h2_def h3_def h4_def)
  have o1: "origin (h1 a) = origin (h a)" for a by (simp add: h1_def)
  have o2: "origin (h2 a) = origin (h a)" for a by (simp add: h2_def shift_materials_origin o1)
  have m3: "material (h3 a) = material (h2 a)" for a by (simp add: h3_def)
  have m4: "material (h4 a) = material (h2 a)" for a
    by (simp add: h4_def shift_origins_material [of erev, OF em] m3)
  have "h2 (object s) = h1 (object s)" using oe by (simp add: h2_def shift_materials_frame)
  then have a: "material (h4 (object s)) = Some ml" by (simp add: m4 h1_def)
  have "map (\<lambda>a. material (h1 a)) ?es = map (\<lambda>a. material (h a)) ?es"
    using oe by (auto simp add: h1_def)
  with shift_materials_map [OF de, of h1 m0]
  have b: "map (\<lambda>a. material (h4 a)) ?es = shifted m0 (map (\<lambda>a. material (h a)) ?es)"
    by (simp add: m4 h2_def)
  have "h4 (image' s) = h3 (image' s)" using ie by (simp add: h4_def shift_origins_frame)
  then have c: "origin (h4 (image' s)) = origin (h (hd ?es))" by (simp add: h3_def o2)
  have x: "map (\<lambda>a. origin (h3 a)) (rev ?es) = map (\<lambda>a. origin (h a)) (rev ?es)"
    using ie by (auto simp add: h3_def o2)
  from de have "distinct (rev ?es)" by simp
  from shift_origins_map [of erev, OF eo this, of h3 "origin (h2 (image' s))"]
  have "map (\<lambda>a. origin (h4 a)) (rev ?es)
          = butlast (origin (h2 (image' s)) # map (\<lambda>a. origin (h3 a)) (rev ?es))"
    by (simp only: h4_def)
  then have d: "map (\<lambda>a. origin (h4 a)) (rev ?es)
          = butlast (origin (h (image' s)) # map (\<lambda>a. origin (h a)) (rev ?es))"
    by (simp only: x o2)
  from r a b c d show ?thesis by (rule that)
qed

text \<open>
  Where the unguarded read finds a material in both calls, the code does what is claimed.
  Let the object, the elements and the image of a System be different objects, let there
  be at least one element, let the object, the first and the last element have a
  material, and let the elements' own \<open>revert\<close> leave origin and material alone. Then two
  calls of \<open>revert\<close> both return, and afterwards the System has its original element
  order, every element and the image have their original origin, and the object and every
  element have their original material (or none, as before).
\<close>

lemma revert_twice_restores:
  assumes di: "distinct (object s # elements s @ [image' s])"
    and ne: "elements s \<noteq> []"
    and mo: "material (h (object s)) \<noteq> None"
    and mf: "material (h (hd (elements s))) \<noteq> None"
    and ml: "material (h (last (elements s))) \<noteq> None"
    and er: "\<forall>e. origin (erev e) = origin e \<and> material (erev e) = material e"
  shows "\<exists>h'. revert_twice erev s h = Inr (s, h')
     \<and> map (\<lambda>a. origin (h' a)) (elements s @ [image' s])
         = map (\<lambda>a. origin (h a)) (elements s @ [image' s])
     \<and> map (\<lambda>a. material (h' a)) (object s # elements s)
         = map (\<lambda>a. material (h a)) (object s # elements s)"
proof -
  let ?es = "elements s"
  let ?ms = "map (\<lambda>a. material (h a)) ?es"
  let ?os = "map (\<lambda>a. origin (h a)) ?es"
  from mo obtain m0 where m0: "material (h (object s)) = Some m0" by auto
  from mf obtain m1 where m1: "material (h (hd ?es)) = Some m1" by auto
  from ml obtain mn where mn: "material (h (last ?es)) = Some mn" by auto
  from er have eo: "\<And>e. origin (erev e) = origin e" and em: "\<And>e. material (erev e) = material e"
    by simp_all
  from ne m1 obtain ms' where ms: "?ms = Some m1 # ms'" by (cases ?es) auto
  from ne mn have lms: "last ?ms = Some mn" by (simp add: last_map)
  from ne have msne: "?ms \<noteq> []" by simp
  obtain h1 where r1: "revert erev s h = Inr (s\<lparr>elements := rev ?es\<rparr>, h1)"
    and a1: "material (h1 (object s)) = Some mn"
    and b1: "map (\<lambda>a. material (h1 a)) ?es = shifted m0 ?ms"
    and c1: "origin (h1 (image' s)) = origin (h (hd ?es))"
    and d1: "map (\<lambda>a. origin (h1 a)) (rev ?es)
               = butlast (origin (h (image' s)) # map (\<lambda>a. origin (h a)) (rev ?es))"
    by (rule revert_effect [OF m0 ne mn di eo em])
  let ?s1 = "s\<lparr>elements := rev ?es\<rparr>"
  have di1: "distinct (object ?s1 # elements ?s1 @ [image' ?s1])" using di by auto
  have ne1: "elements ?s1 \<noteq> []" using ne by simp
  have "material (h1 (hd ?es)) = hd (map (\<lambda>a. material (h1 a)) ?es)"
    using ne by (simp add: hd_map)
  also have "\<dots> = Some m0" by (simp add: b1 ms)
  finally have l1: "material (h1 (last (elements ?s1))) = Some m0"
    using ne by (simp add: last_rev)
  have o1: "material (h1 (object ?s1)) = Some mn" using a1 by simp
  obtain h2 where r2: "revert erev ?s1 h1 = Inr (?s1\<lparr>elements := rev (elements ?s1)\<rparr>, h2)"
    and a2: "material (h2 (object ?s1)) = Some m0"
    and b2: "map (\<lambda>a. material (h2 a)) (elements ?s1)
               = shifted mn (map (\<lambda>a. material (h1 a)) (elements ?s1))"
    and c2: "origin (h2 (image' ?s1)) = origin (h1 (hd (elements ?s1)))"
    and d2: "map (\<lambda>a. origin (h2 a)) (rev (elements ?s1))
               = butlast (origin (h1 (image' ?s1)) # map (\<lambda>a. origin (h1 a)) (rev (elements ?s1)))"
    by (rule revert_effect [OF o1 ne1 l1 di1 eo em])
  have s2: "?s1\<lparr>elements := rev (elements ?s1)\<rparr> = s" by simp
  have rt: "revert_twice erev s h = Inr (s, h2)"
    using r1 r2 by (simp add: revert_twice_def s2)
  \<comment> \<open>materials\<close>
  have cm: "carried m0 ?ms = mn" using msne lms by (rule carried_last)
  have "map (\<lambda>a. material (h2 a)) (rev ?es) = shifted mn (rev (shifted m0 ?ms))"
    using b2 b1 by (simp add: rev_map [symmetric])
  also have "\<dots> = rev ?ms" using shifted_back [of m0 ?ms] cm by simp
  finally have "rev (map (\<lambda>a. material (h2 a)) ?es) = rev ?ms" by (simp add: rev_map)
  then have M: "map (\<lambda>a. material (h2 a)) ?es = ?ms" by simp
  \<comment> \<open>origins\<close>
  have osne: "?os \<noteq> []" using ne by simp
  have "map (\<lambda>a. origin (h1 a)) ?es = rev (map (\<lambda>a. origin (h1 a)) (rev ?es))"
    by (simp add: rev_map)
  also have "\<dots> = rev (butlast (origin (h (image' s)) # rev ?os))"
    by (simp add: d1 rev_map)
  finally have e1: "map (\<lambda>a. origin (h1 a)) ?es = rev (butlast (origin (h (image' s)) # rev ?os))" .
  have "map (\<lambda>a. origin (h2 a)) ?es
          = butlast (origin (h (hd ?es)) # map (\<lambda>a. origin (h1 a)) ?es)"
    using d2 c1 by simp
  also have "\<dots> = butlast (hd ?os # rev (butlast (origin (h (image' s)) # rev ?os)))"
    using ne by (simp add: e1 hd_map)
  also have "\<dots> = ?os" using osne by (rule butlast_round)
  finally have O: "map (\<lambda>a. origin (h2 a)) ?es = ?os" .
  have "origin (h2 (image' s)) = origin (h1 (last ?es))"
    using c2 ne by (simp add: hd_rev)
  also have "\<dots> = last (map (\<lambda>a. origin (h1 a)) ?es)" using ne by (simp add: last_map)
  also have "\<dots> = origin (h (image' s))"
    using ne by (simp add: e1 last_rev)
  finally have I: "origin (h2 (image' s)) = origin (h (image' s))" .
  from a2 m0 have A: "material (h2 (object s)) = material (h (object s))" by simp
  from rt M O I A show ?thesis by auto
qed

lemma revert_twice_restores_stop_last:
  "distinct (object stop_last # elements stop_last @ [image' stop_last])
   \<and> elements stop_last \<noteq> []
   \<and> map_sum id fst (revert_twice (\<lambda>e. e) stop_last stop_last_heap) = Inr stop_last
   \<and> map_sum id (\<lambda>p. map (\<lambda>a. origin (snd p a)) [1, 2, 3])
        (revert_twice (\<lambda>e. e) stop_last stop_last_heap)
       = Inr [(0, 0, 1), (0, 0, 2), (0, 0, 5)]
   \<and> map_sum id (\<lambda>p. map (\<lambda>a. material (snd p a)) [0, 1, 2])
        (revert_twice (\<lambda>e. e) stop_last stop_last_heap)
       = Inr [Some air, Some glass, Some air]"
proof -
  have di: "distinct (object stop_last # elements stop_last @ [image' stop_last])"
    and ne: "elements stop_last \<noteq> []"
    by (simp_all add: stop_last_def)
  have mo: "material (stop_last_heap (object stop_last)) \<noteq> None"
    and mf: "material (stop_last_heap (hd (elements stop_last))) \<noteq> None"
    and ml: "material (stop_last_heap (last (elements stop_last))) \<noteq> None"
    by (simp_all add: stop_last_def stop_last_heap_def elem_def)
  have er: "\<forall>e :: rat element. origin ((\<lambda>e. e) e) = origin e \<and> material ((\<lambda>e. e) e) = material e"
    by simp
  from revert_twice_restores [OF di ne mo mf ml er] obtain h' where
    r: "revert_twice (\<lambda>e. e) stop_last stop_last_heap = Inr (stop_last, h')"
    and o: "map (\<lambda>a. origin (h' a)) (elements stop_last @ [image' stop_last])
         = map (\<lambda>a. origin (stop_last_heap a)) (elements stop_last @ [image' stop_last])"
    and m: "map (\<lambda>a. material (h' a)) (object stop_last # elements stop_last)
         = map (\<lambda>a. material (stop_last_heap a)) (object stop_last # elements stop_last)"
    by blast
  from o have "map (\<lambda>a. origin (h' a)) [1, 2, 3] = [(0, 0, 1), (0, 0, 2), (0, 0, 5)]"
    by (simp add: stop_last_def stop_last_heap_def elem_def)
  moreover from m have "map (\<lambda>a. material (h' a)) [0, 1, 2] = [Some air, Some glass, Some air]"
    by (simp add: stop_last_def stop_last_heap_def elem_def)
  ultimately show ?thesis using di ne r by simp
qed

end
